theory Spec2Isabelle
  imports Complex_Main
begin

section \<open>Strings of the host language\<close>

text \<open>
  A JavaScript string is modelled as a \<^typ>\<open>string\<close>: a list of code units, here restricted
  to the code units below 256. The named characters of the library:
\<close>

abbreviation LF :: char where "LF \<equiv> CHR 0x0A"
abbreviation CR :: char where "CR \<equiv> CHR 0x0D"
abbreviation TAB :: char where "TAB \<equiv> CHR 0x09"
abbreviation SPACE :: char where "SPACE \<equiv> CHR 0x20"
abbreviation BACKSLASH :: char where "BACKSLASH \<equiv> CHR 0x5C"
abbreviation DOUBLE_QUOTE :: char where "DOUBLE_QUOTE \<equiv> CHR 0x22"
abbreviation COLON_CHAR :: char where "COLON_CHAR \<equiv> CHR 0x3A"

text \<open>The regular-expression classes \<open>\d\<close>, \<open>\w\<close> and \<open>\s\<close> (the last is also what \<open>trim\<close> strips).\<close>

definition isDigit :: "char \<Rightarrow> bool" where
  "isDigit c = (c \<in> set ''0123456789'')"

definition isLetter :: "char \<Rightarrow> bool" where
  "isLetter c = (c \<in> set ''ABCDEFGHIJKLMNOPQRSTUVWXYZabcdefghijklmnopqrstuvwxyz'')"

definition isWordChar :: "char \<Rightarrow> bool" where
  "isWordChar c = (isLetter c \<or> isDigit c \<or> c = CHR ''_'')"

definition isWhiteSpace :: "char \<Rightarrow> bool" where
  "isWhiteSpace c = (c \<in> set [TAB, LF, CHR 0x0B, CHR 0x0C, CR, SPACE, CHR 0xA0])"

definition trim :: "string \<Rightarrow> string" where
  "trim s = rev (dropWhile isWhiteSpace (rev (dropWhile isWhiteSpace s)))"

definition startsWith :: "string \<Rightarrow> string \<Rightarrow> bool" where
  "startsWith s p = (take (length p) s = p)"

definition endsWith :: "string \<Rightarrow> string \<Rightarrow> bool" where
  "endsWith s p = (length p \<le> length s \<and> drop (length s - length p) s = p)"

text \<open>\<open>xs.join(sep)\<close>\<close>

fun join :: "string \<Rightarrow> string list \<Rightarrow> string" where
  "join sep [] = []"
| "join sep [x] = x"
| "join sep (x # y # ys) = x @ sep @ join sep (y # ys)"

text \<open>\<open>s.split('\n')\<close>: always at least one piece.\<close>

fun splitLines :: "string \<Rightarrow> string list" where
  "splitLines [] = [[]]"
| "splitLines (c # cs) =
     (if c = LF then [] # splitLines cs
      else (case splitLines cs of l # ls \<Rightarrow> (c # l) # ls | [] \<Rightarrow> [[c]]))"

text \<open>\<open>s.replace(/c/g, rep)\<close> for a one-character pattern.\<close>

definition replaceAll :: "char \<Rightarrow> string \<Rightarrow> string \<Rightarrow> string" where
  "replaceAll c rep s = concat (map (\<lambda>x. if x = c then rep else [x]) s)"

text \<open>\<open>String(n)\<close> for a non-negative integer: its decimal digits.\<close>

definition digitChar :: "nat \<Rightarrow> char" where
  "digitChar d = ''0123456789'' ! d"

fun natToString :: "nat \<Rightarrow> string" where
  "natToString n = (if n < 10 then [digitChar n] else natToString (n div 10) @ [digitChar (n mod 10)])"

declare natToString.simps [simp del]

definition intToString :: "int \<Rightarrow> string" where
  "intToString i = (if i < 0 then CHR ''-'' # natToString (nat (- i)) else natToString (nat i))"

text \<open>
  \<open>parseInt(digits, 10)\<close> on a string of decimal digits, as an exact natural number (the
  host's result is a double, exact below \<open>2 ^ 53\<close>).
\<close>

definition digitValue :: "char \<Rightarrow> nat" where
  "digitValue c = of_char c - 48"

definition parseInt :: "string \<Rightarrow> nat" where
  "parseInt ds = foldl (\<lambda>acc c. 10 * acc + digitValue c) 0 ds"

subsection \<open>Regular-expression fragments\<close>

text \<open>
  The library's regular expressions are anchored at both ends and deterministic, so each is
  written as a left-to-right recogniser that returns the rest of the input.
  \<open>digits1\<close> is \<open>\d+\<close>, \<open>digitsN n\<close> is \<open>\d{n}\<close>, \<open>optChar p\<close> is \<open>[p]?\<close>,
  \<open>optGroup g\<close> is \<open>(?:g)?\<close>, \<open>lit c\<close> is the character \<open>c\<close>.
\<close>

definition digits1 :: "string \<Rightarrow> string option" where
  "digits1 s = (case s of [] \<Rightarrow> None | c # r \<Rightarrow> if isDigit c then Some (dropWhile isDigit r) else None)"

definition digitsN :: "nat \<Rightarrow> string \<Rightarrow> string option" where
  "digitsN n s = (if n \<le> length s \<and> list_all isDigit (take n s) then Some (drop n s) else None)"

definition optChar :: "(char \<Rightarrow> bool) \<Rightarrow> string \<Rightarrow> string" where
  "optChar p s = (case s of [] \<Rightarrow> [] | c # r \<Rightarrow> if p c then r else s)"

definition optGroup :: "(string \<Rightarrow> string option) \<Rightarrow> string \<Rightarrow> string" where
  "optGroup g s = (case g s of Some r \<Rightarrow> r | None \<Rightarrow> s)"

definition lit :: "char \<Rightarrow> string \<Rightarrow> string option" where
  "lit c s = (case s of [] \<Rightarrow> None | x # r \<Rightarrow> if x = c then Some r else None)"

text \<open>\<open>(?:\.\d+)\<close> and \<open>(?:[eE][+-]?\d+)\<close>\<close>

definition fractionPart :: "string \<Rightarrow> string option" where
  "fractionPart s = (case s of [] \<Rightarrow> None | c # r \<Rightarrow> if c = CHR ''.'' then digits1 r else None)"

definition exponentPart :: "string \<Rightarrow> string option" where
  "exponentPart s =
     (case s of [] \<Rightarrow> None
      | c # r \<Rightarrow> if c = CHR ''e'' \<or> c = CHR ''E''
                 then digits1 (optChar (\<lambda>x. x = CHR ''+'' \<or> x = CHR ''-'') r) else None)"

section \<open>Errors\<close>

text \<open>
  Every \<open>throw\<close> of the library is a constructor of \<open>error\<close>, carrying what the message
  interpolates. \<open>TypeError\<close> is the host's error for a property read on \<open>undefined\<close> and
  for \<open>Object.keys(undefined)\<close>, \<open>RangeError\<close> the one of \<open>toISOString\<close> on an invalid
  date. \<open>OutOfFuel\<close> is not an error of the library: the parser's loops are modelled with
  fuel, and this is the model running out of it.
\<close>

datatype error =
    TabInIndentation nat
  | IndentationNotMultiple nat nat nat
  | BlankLineInArray string
  | EscapeAtEndOfString
  | InvalidEscapeSequence char
  | MissingColonAfterKey string
  | NestedValueWithoutColon string
  | ArrayLengthMismatch nat nat
  | TabularRowCountMismatch nat nat
  | TabularRowValueCountMismatch nat nat
  | ListArrayLengthMismatch nat nat
  | UnterminatedQuotedString
  | TypeError
  | RangeError
  | OutOfFuel

definition bindE :: "error + 'a \<Rightarrow> ('a \<Rightarrow> error + 'b) \<Rightarrow> error + 'b" where
  "bindE m f = (case m of Inl e \<Rightarrow> Inl e | Inr x \<Rightarrow> f x)"

fun mapE :: "('a \<Rightarrow> error + 'b) \<Rightarrow> 'a list \<Rightarrow> error + 'b list" where
  "mapE f [] = Inr []"
| "mapE f (x # xs) = bindE (f x) (\<lambda>y. bindE (mapE f xs) (\<lambda>ys. Inr (y # ys)))"

text \<open>The results of a list of computations done in order: the first error, or all the values.\<close>

fun sequenceE :: "(error + 'a) list \<Rightarrow> error + 'a list" where
  "sequenceE [] = Inr []"
| "sequenceE (m # ms) = bindE m (\<lambda>y. bindE (sequenceE ms) (\<lambda>ys. Inr (y # ys)))"

section \<open>Values\<close>

text \<open>
  \<open>JsonValue = JsonPrimitive | JsonObject | JsonArray\<close>, as the values are at run time.
  The type \<open>'n\<close> is the host's finite numbers.

  An object is its own enumerable entries, in \<open>Object.keys\<close> order, and its prototype:
  \<open>Object.prototype\<close> for \<open>{}\<close>, and after an assignment to \<open>__proto__\<close> either \<open>null\<close>
  or the object or array assigned.

  An array may have holes (an array literal \<open>[,]\<close>, \<open>new Array(1)\<close>): the host's \<open>map\<close>
  keeps them, so a hole of the input is a hole of the normalised array. \<open>Hole\<close> stands
  for one; it occurs only as an element of an array. A hole counts in \<open>length\<close>, is
  skipped by \<open>every\<close> and \<open>map\<close>, is the empty string for \<open>join\<close>, and is \<open>undefined\<close>
  for \<open>for ... of\<close> and for an index read.
\<close>

datatype 'n JsonPrimitive = JNull | JBool bool | JNumber 'n | JString string

datatype 'a Prototype = ObjectPrototype | NullPrototype | InstancePrototype 'a

datatype 'n JsonValue =
    Prim "'n JsonPrimitive"
  | JArray "'n JsonValue list"
  | JObject "(string \<times> 'n JsonValue) list \<times> 'n JsonValue Prototype"
  | Hole

type_synonym 'n Entries = "(string \<times> 'n JsonValue) list"
type_synonym 'n JsonObject = "'n Entries \<times> 'n JsonValue Prototype"
type_synonym 'n JsonArray = "'n JsonValue list"

text \<open>The object literal \<open>{}\<close>.\<close>

definition emptyObject :: "'n JsonObject" where
  "emptyObject = ([], ObjectPrototype)"

text \<open>
  What the host runtime supplies for numbers: \<open>String(n)\<close>, and the number that is a
  given integer (\<open>Number(b)\<close> for a BigInt \<open>b\<close> in the safe-integer range, \<open>0\<close> for
  negative zero, the \<open>length\<close> of an array).
\<close>

record 'n runtime =
  numToString :: "'n \<Rightarrow> string"
  numOfInt :: "int \<Rightarrow> 'n"

definition isJsonPrimitive :: "'n JsonValue \<Rightarrow> bool" where
  "isJsonPrimitive v = (case v of Prim _ \<Rightarrow> True | _ \<Rightarrow> False)"

definition isJsonArray :: "'n JsonValue \<Rightarrow> bool" where
  "isJsonArray v = (case v of JArray _ \<Rightarrow> True | _ \<Rightarrow> False)"

definition isJsonObject :: "'n JsonValue \<Rightarrow> bool" where
  "isJsonObject v = (case v of JObject _ \<Rightarrow> True | _ \<Rightarrow> False)"

definition isHole :: "'n JsonValue \<Rightarrow> bool" where
  "isHole v = (case v of Hole \<Rightarrow> True | _ \<Rightarrow> False)"

subsection \<open>Properties of an object\<close>

text \<open>
  An array index: the canonical decimal text of an integer from \<open>0\<close> to \<open>2 ^ 32 - 2\<close>.
  The host lists the own keys of an object that are array indices first, in ascending
  order, and the other keys after them, in the order of their creation.
\<close>

definition arrayIndex :: "string \<Rightarrow> nat option" where
  "arrayIndex k =
     (if k \<noteq> [] \<and> list_all isDigit k \<and> (k = ''0'' \<or> hd k \<noteq> CHR ''0'') \<and> parseInt k \<le> 4294967294
      then Some (parseInt k) else None)"

definition hasOwn :: "'n Entries \<Rightarrow> string \<Rightarrow> bool" where
  "hasOwn es k = (k \<in> set (map fst es))"

text \<open>Writing an own property that exists: it keeps its place.\<close>

fun updateProp :: "'n Entries \<Rightarrow> string \<Rightarrow> 'n JsonValue \<Rightarrow> 'n Entries" where
  "updateProp [] k v = []"
| "updateProp ((k', v') # es) k v = (if k' = k then (k, v) # es else (k', v') # updateProp es k v)"

text \<open>
  Creating an own property: an array index goes among the array indices, in ascending
  order; another key goes last.
\<close>

fun insertProp :: "'n Entries \<Rightarrow> string \<Rightarrow> 'n JsonValue \<Rightarrow> 'n Entries" where
  "insertProp [] k v = [(k, v)]"
| "insertProp ((k', v') # es) k v =
     (case arrayIndex k of
        None \<Rightarrow> (k', v') # insertProp es k v
      | Some i \<Rightarrow>
          (case arrayIndex k' of
             Some j \<Rightarrow> if j < i then (k', v') # insertProp es k v else (k, v) # (k', v') # es
           | None \<Rightarrow> (k, v) # (k', v') # es))"

text \<open>
  \<open>CreateDataProperty\<close>, the way \<open>Object.fromEntries\<close> writes each entry: the key becomes
  an own property whatever it is.
\<close>

definition defineProp :: "'n Entries \<Rightarrow> string \<Rightarrow> 'n JsonValue \<Rightarrow> 'n Entries" where
  "defineProp es k v = (if hasOwn es k then updateProp es k v else insertProp es k v)"

text \<open>
  Whether an assignment to the key \<open>__proto__\<close> reaches the accessor of
  \<open>Object.prototype\<close> when it goes up from a prototype that is the value \<open>v\<close>: an array
  inherits it through \<open>Array.prototype\<close>; an object hides it behind an own data property
  of that name, and otherwise passes the question to its own prototype.
\<close>

fun inheritsProtoAccessor :: "'n JsonValue \<Rightarrow> bool" where
  "inheritsProtoAccessor (JArray xs) = True"
| "inheritsProtoAccessor (JObject (es, p)) =
     (if hasOwn es ''__proto__'' then False
      else (case p of
              ObjectPrototype \<Rightarrow> True
            | NullPrototype \<Rightarrow> False
            | InstancePrototype v \<Rightarrow> inheritsProtoAccessor v))"
| "inheritsProtoAccessor _ = False"

definition protoAccessor :: "'n JsonValue Prototype \<Rightarrow> bool" where
  "protoAccessor p =
     (case p of
        ObjectPrototype \<Rightarrow> True
      | NullPrototype \<Rightarrow> False
      | InstancePrototype v \<Rightarrow> inheritsProtoAccessor v)"

text \<open>
  The assignment \<open>obj[key] = value\<close>. An own property is overwritten in place. Otherwise the
  key \<open>__proto__\<close>, where the accessor of \<open>Object.prototype\<close> is inherited, creates no
  property: the setter makes an object, an array or \<open>null\<close> the prototype of \<open>obj\<close>, and
  ignores any other value. Every other assignment creates an own property (the
  properties that the prototypes of these values hold are writable data properties).
\<close>

definition setProp :: "'n JsonObject \<Rightarrow> string \<Rightarrow> 'n JsonValue \<Rightarrow> 'n JsonObject" where
  "setProp obj k v =
     (case obj of (es, p) \<Rightarrow>
        if hasOwn es k then (updateProp es k v, p)
        else if k = ''__proto__'' \<and> protoAccessor p
        then (case v of
                Prim JNull \<Rightarrow> (es, NullPrototype)
              | JObject _ \<Rightarrow> (es, InstancePrototype v)
              | JArray _ \<Rightarrow> (es, InstancePrototype v)
              | _ \<Rightarrow> (es, p))
        else (insertProp es k v, p))"

text \<open>\<open>Object.fromEntries(entries)\<close>\<close>

definition fromEntries :: "(string \<times> 'n JsonValue) list \<Rightarrow> 'n JsonObject" where
  "fromEntries entries = (foldl (\<lambda>acc (k, v). defineProp acc k v) [] entries, ObjectPrototype)"

text \<open>
  The read \<open>row[key]\<close>, for a key that \<open>key in row\<close> finds: the own property, or the
  property of the nearest prototype that has one; an array as prototype has its elements
  (not its holes) and its \<open>length\<close>. The result is \<open>None\<close> for a key that is not found and
  for a key found only in \<open>Object.prototype\<close> or \<open>Array.prototype\<close>, where every value
  that can be read is a function or an object, never a primitive.
\<close>

fun getProperty :: "'n runtime \<Rightarrow> 'n JsonValue \<Rightarrow> string \<Rightarrow> 'n JsonValue option" where
  "getProperty rt (JObject (es, p)) key =
     (case map_of es key of
        Some v \<Rightarrow> Some v
      | None \<Rightarrow> (case p of InstancePrototype v \<Rightarrow> getProperty rt v key | _ \<Rightarrow> None))"
| "getProperty rt (JArray xs) key =
     (if key = ''length'' then Some (Prim (JNumber (numOfInt rt (int (length xs)))))
      else (case arrayIndex key of
              Some i \<Rightarrow> if i < length xs \<and> \<not> isHole (xs ! i) then Some (xs ! i) else None
            | None \<Rightarrow> None))"
| "getProperty rt _ key = None"

subsection \<open>Normalisation of the input\<close>

text \<open>
  The inputs of \<open>normalizeValue\<close>. \<open>HDate\<close> carries the date's \<open>toISOString()\<close>,
  \<open>HInvalidDate\<close> is a date that has none, \<open>HMap\<close> carries the entries of the map with the
  keys already through \<open>String(k)\<close>, \<open>HObject\<close> the own enumerable entries of a plain object
  in the order of \<open>for ... in\<close>, \<open>HOther\<close> everything else (undefined, functions, symbols,
  objects with another prototype). \<open>HHole\<close> is a hole of an array, and occurs only as an
  element of \<open>HArray\<close>.
\<close>

datatype 'n HostValue =
    HNull
  | HString string
  | HBool bool
  | HNumber 'n
  | HNegZero
  | HNonFinite
  | HBigInt int
  | HDate string
  | HInvalidDate
  | HArray "'n HostValue list"
  | HSet "'n HostValue list"
  | HMap "(string \<times> 'n HostValue) list"
  | HObject "(string \<times> 'n HostValue) list"
  | HOther
  | HHole

definition MAX_SAFE_INTEGER :: int where
  "MAX_SAFE_INTEGER = 2 ^ 53 - 1"

definition MIN_SAFE_INTEGER :: int where
  "MIN_SAFE_INTEGER = - (2 ^ 53 - 1)"

text \<open>
  \<open>value.map(normalizeValue)\<close> does not call the function on a hole and leaves the hole
  in the result. The loop over a plain object assigns each own key to a new \<open>{}\<close>.
\<close>

fun normalizeValue :: "'n runtime \<Rightarrow> 'n HostValue \<Rightarrow> error + 'n JsonValue" where
  "normalizeValue rt HNull = Inr (Prim JNull)"
| "normalizeValue rt (HString s) = Inr (Prim (JString s))"
| "normalizeValue rt (HBool b) = Inr (Prim (JBool b))"
| "normalizeValue rt HNegZero = Inr (Prim (JNumber (numOfInt rt 0)))"
| "normalizeValue rt HNonFinite = Inr (Prim JNull)"
| "normalizeValue rt (HNumber n) = Inr (Prim (JNumber n))"
| "normalizeValue rt (HBigInt i) =
     (if MIN_SAFE_INTEGER \<le> i \<and> i \<le> MAX_SAFE_INTEGER then Inr (Prim (JNumber (numOfInt rt i)))
      else Inr (Prim (JString (intToString i))))"
| "normalizeValue rt (HDate isoString) = Inr (Prim (JString isoString))"
| "normalizeValue rt HInvalidDate = Inl RangeError"
| "normalizeValue rt (HArray xs) =
     bindE (sequenceE (map (\<lambda>x. case x of HHole \<Rightarrow> Inr Hole | _ \<Rightarrow> normalizeValue rt x) xs))
       (\<lambda>vs. Inr (JArray vs))"
| "normalizeValue rt (HSet xs) =
     bindE (sequenceE (map (normalizeValue rt) xs)) (\<lambda>vs. Inr (JArray vs))"
| "normalizeValue rt (HMap es) =
     bindE (sequenceE (map (\<lambda>(k, v). bindE (normalizeValue rt v) (\<lambda>n. Inr (k, n))) es))
       (\<lambda>entries. Inr (JObject (fromEntries entries)))"
| "normalizeValue rt (HObject es) =
     bindE (sequenceE (map (\<lambda>(k, v). bindE (normalizeValue rt v) (\<lambda>n. Inr (k, n))) es))
       (\<lambda>entries. Inr (JObject (foldl (\<lambda>result (k, v). setProp result k v) emptyObject entries)))"
| "normalizeValue rt HOther = Inr (Prim JNull)"
| "normalizeValue rt HHole = Inr (Prim JNull)"

subsection \<open>Arrays\<close>

text \<open>\<open>value.every(p)\<close>: the test is not made on a hole.\<close>

definition every :: "('n JsonValue \<Rightarrow> bool) \<Rightarrow> 'n JsonArray \<Rightarrow> bool" where
  "every p xs = list_all (\<lambda>v. isHole v \<or> p v) xs"

definition isArrayOfPrimitives :: "'n JsonArray \<Rightarrow> bool" where
  "isArrayOfPrimitives xs = every isJsonPrimitive xs"

definition isArrayOfArrays :: "'n JsonArray \<Rightarrow> bool" where
  "isArrayOfArrays xs = every isJsonArray xs"

definition isArrayOfObjects :: "'n JsonArray \<Rightarrow> bool" where
  "isArrayOfObjects xs = every isJsonObject xs"

text \<open>
  The cast \<open>value as JsonPrimitive[]\<close>, which the source applies under
  \<open>isArrayOfPrimitives\<close>: each element is a primitive or a hole (\<open>None\<close>).
\<close>

fun asPrimitives :: "'n JsonArray \<Rightarrow> 'n JsonPrimitive option list" where
  "asPrimitives [] = []"
| "asPrimitives (Prim p # vs) = Some p # asPrimitives vs"
| "asPrimitives (_ # vs) = None # asPrimitives vs"

section \<open>Quoting and escaping\<close>

datatype Delimiter = Comma | Tab | Pipe

fun delimiterChar :: "Delimiter \<Rightarrow> char" where
  "delimiterChar Comma = CHR '',''"
| "delimiterChar Tab = TAB"
| "delimiterChar Pipe = CHR ''|''"

definition escapeString :: "string \<Rightarrow> string" where
  "escapeString v =
     replaceAll TAB [BACKSLASH, CHR ''t'']
       (replaceAll CR [BACKSLASH, CHR ''r'']
         (replaceAll LF [BACKSLASH, CHR ''n'']
           (replaceAll DOUBLE_QUOTE [BACKSLASH, DOUBLE_QUOTE]
             (replaceAll BACKSLASH [BACKSLASH, BACKSLASH] v))))"

definition isBooleanOrNullLiteral :: "string \<Rightarrow> bool" where
  "isBooleanOrNullLiteral t = (t = ''true'' \<or> t = ''false'' \<or> t = ''null'')"

text \<open>\<open>/^0\d+$/\<close>\<close>

definition leadingZeroShape :: "string \<Rightarrow> bool" where
  "leadingZeroShape v =
     (case v of [] \<Rightarrow> False | c # r \<Rightarrow> c = CHR ''0'' \<and> r \<noteq> [] \<and> list_all isDigit r)"

text \<open>\<open>/^-?\d+(?:\.\d+)?(?:e[+-]?\d+)?$/i\<close> or \<open>/^0\d+$/\<close>\<close>

definition isNumericLike :: "string \<Rightarrow> bool" where
  "isNumericLike v =
     ((case digits1 (optChar (\<lambda>c. c = CHR ''-'') v) of
         None \<Rightarrow> False
       | Some r \<Rightarrow> optGroup exponentPart (optGroup fractionPart r) = [])
      \<or> leadingZeroShape v)"

text \<open>\<open>/^\d{4}-\d{2}-\d{2}T\d{2}:\d{2}:\d{2}(\.\d{3})?Z?$/\<close>\<close>

definition isISOTimestamp :: "string \<Rightarrow> bool" where
  "isISOTimestamp v =
     (case Option.bind (digitsN 4 v) (lit (CHR ''-'')) of None \<Rightarrow> False | Some r1 \<Rightarrow>
      case Option.bind (digitsN 2 r1) (lit (CHR ''-'')) of None \<Rightarrow> False | Some r2 \<Rightarrow>
      case Option.bind (digitsN 2 r2) (lit (CHR ''T'')) of None \<Rightarrow> False | Some r3 \<Rightarrow>
      case Option.bind (digitsN 2 r3) (lit COLON_CHAR) of None \<Rightarrow> False | Some r4 \<Rightarrow>
      case Option.bind (digitsN 2 r4) (lit COLON_CHAR) of None \<Rightarrow> False | Some r5 \<Rightarrow>
      case digitsN 2 r5 of None \<Rightarrow> False | Some r6 \<Rightarrow>
        optChar (\<lambda>c. c = CHR ''Z'')
          (optGroup (\<lambda>s. Option.bind (lit (CHR ''.'') s) (digitsN 3)) r6) = [])"

definition isSafeUnquoted :: "string \<Rightarrow> Delimiter \<Rightarrow> bool" where
  "isSafeUnquoted v delimiter =
     (if v = [] then False
      else if v \<noteq> trim v then False
      else if isBooleanOrNullLiteral v \<or> isNumericLike v then False
      else if COLON_CHAR \<in> set v \<and> \<not> isISOTimestamp v then False
      else if DOUBLE_QUOTE \<in> set v \<or> BACKSLASH \<in> set v then False
      else if list_ex (\<lambda>c. c \<in> set ''[]{}'') v then False
      else if list_ex (\<lambda>c. c \<in> set [LF, CR, TAB]) v then False
      else if delimiterChar delimiter \<in> set v then False
      else if startsWith v ''-'' then False
      else True)"

definition encodeStringLiteral :: "string \<Rightarrow> Delimiter \<Rightarrow> string" where
  "encodeStringLiteral v delimiter =
     (if isSafeUnquoted v delimiter then v
      else [DOUBLE_QUOTE] @ escapeString v @ [DOUBLE_QUOTE])"

fun encodePrimitive :: "'n runtime \<Rightarrow> 'n JsonPrimitive \<Rightarrow> Delimiter \<Rightarrow> string" where
  "encodePrimitive rt JNull delimiter = ''null''"
| "encodePrimitive rt (JBool b) delimiter = (if b then ''true'' else ''false'')"
| "encodePrimitive rt (JNumber n) delimiter = numToString rt n"
| "encodePrimitive rt (JString s) delimiter = encodeStringLiteral s delimiter"

text \<open>\<open>/^[A-Z_][\w.]*$/i\<close>\<close>

definition isValidUnquotedKey :: "string \<Rightarrow> bool" where
  "isValidUnquotedKey k =
     (case k of [] \<Rightarrow> False
      | c # r \<Rightarrow> (isLetter c \<or> c = CHR ''_'') \<and> list_all (\<lambda>x. isWordChar x \<or> x = CHR ''.'') r)"

definition encodeKey :: "string \<Rightarrow> string" where
  "encodeKey k =
     (if isValidUnquotedKey k then k else [DOUBLE_QUOTE] @ escapeString k @ [DOUBLE_QUOTE])"

text \<open>
  \<open>values.map((v) => encodePrimitive(v, delimiter)).join(delimiter)\<close>: \<open>map\<close> leaves a
  hole where it finds one, and \<open>join\<close> writes nothing for it.
\<close>

definition encodeAndJoinPrimitives ::
  "'n runtime \<Rightarrow> 'n JsonPrimitive option list \<Rightarrow> Delimiter \<Rightarrow> string" where
  "encodeAndJoinPrimitives rt vs delimiter =
     join [delimiterChar delimiter]
       (map (\<lambda>v. case v of Some p \<Rightarrow> encodePrimitive rt p delimiter | None \<Rightarrow> []) vs)"

text \<open>
  \<open>formatHeader\<close>: \<open>if (key)\<close> is false for an absent key and for the empty string;
  \<open>lengthMarker\<close> is \<open>True\<close> for \<open>'#'\<close>.
\<close>

definition formatHeader :: "nat \<Rightarrow> string option \<Rightarrow> string list option \<Rightarrow> Delimiter \<Rightarrow> bool \<Rightarrow> string" where
  "formatHeader len key fieldNames delimiter lengthMarker =
     (case key of None \<Rightarrow> [] | Some k \<Rightarrow> if k = [] then [] else encodeKey k)
     @ ''['' @ (if lengthMarker then ''#'' else []) @ natToString len
     @ (if delimiter \<noteq> Comma then [delimiterChar delimiter] else []) @ '']''
     @ (case fieldNames of None \<Rightarrow> []
        | Some fs \<Rightarrow> ''{'' @ join [delimiterChar delimiter] (map encodeKey fs) @ ''}'')
     @ '':''"

section \<open>Encoder\<close>

record ResolvedOptions =
  indent :: nat
  delimiter :: Delimiter
  lengthMarker :: bool

record LineWriter =
  lines :: "string list"
  indentationString :: string

definition newLineWriter :: "nat \<Rightarrow> LineWriter" where
  "newLineWriter indentSize = \<lparr>lines = [], indentationString = replicate indentSize SPACE\<rparr>"

definition push :: "LineWriter \<Rightarrow> nat \<Rightarrow> string \<Rightarrow> LineWriter" where
  "push w depth content =
     w\<lparr>lines := lines w @ [concat (replicate depth (indentationString w)) @ content]\<rparr>"

definition pushListItem :: "LineWriter \<Rightarrow> nat \<Rightarrow> string \<Rightarrow> LineWriter" where
  "pushListItem w depth content = push w depth (''- '' @ content)"

definition writerToString :: "LineWriter \<Rightarrow> string" where
  "writerToString w = join [LF] (lines w)"

definition encodeInlineArrayLine ::
  "'n runtime \<Rightarrow> 'n JsonPrimitive option list \<Rightarrow> Delimiter \<Rightarrow> string option \<Rightarrow> bool \<Rightarrow> string" where
  "encodeInlineArrayLine rt vs delim prefix marker =
     (let header = formatHeader (length vs) prefix None delim marker;
          joinedValue = encodeAndJoinPrimitives rt vs delim
      in if vs = [] then header else header @ '' '' @ joinedValue)"

text \<open>
  \<open>isTabularArray\<close>, row after row: \<open>Object.keys(row)\<close> throws on the \<open>undefined\<close> that
  \<open>for ... of\<close> gives for a hole; a row passes when it has as many own keys as the header
  and each header key is found in it with a primitive value. The rows are objects or
  holes where the source calls it.
\<close>

fun isTabularArray :: "'n runtime \<Rightarrow> 'n JsonArray \<Rightarrow> string list \<Rightarrow> error + bool" where
  "isTabularArray rt [] header = Inr True"
| "isTabularArray rt (row # rows) header =
     (case row of
        Hole \<Rightarrow> Inl TypeError
      | JObject obj \<Rightarrow>
          if length (fst obj) \<noteq> length header then Inr False
          else if list_all (\<lambda>key. case getProperty rt row key of
                                     None \<Rightarrow> False
                                   | Some v \<Rightarrow> isJsonPrimitive v) header
          then isTabularArray rt rows header
          else Inr False
      | _ \<Rightarrow> Inr False)"

definition extractTabularHeader :: "'n runtime \<Rightarrow> 'n JsonArray \<Rightarrow> error + string list option" where
  "extractTabularHeader rt rows =
     (case rows of
        [] \<Rightarrow> Inr None
      | firstRow # _ \<Rightarrow>
          (case firstRow of
             JObject obj \<Rightarrow>
               (let firstKeys = map fst (fst obj)
                in if firstKeys = [] then Inr None
                   else bindE (isTabularArray rt rows firstKeys)
                          (\<lambda>tabular. if tabular then Inr (Some firstKeys) else Inr None))
           | _ \<Rightarrow> Inr None))"

text \<open>
  \<open>row[key] as JsonPrimitive\<close>. Under \<open>isTabularArray\<close> the key is found with a
  primitive value; the other cases are not reached.
\<close>

definition getPrimitive :: "'n runtime \<Rightarrow> 'n JsonValue \<Rightarrow> string \<Rightarrow> 'n JsonPrimitive" where
  "getPrimitive rt row key =
     (case getProperty rt row key of Some (Prim p) \<Rightarrow> p | _ \<Rightarrow> JNull)"

fun writeTabularRows ::
  "'n runtime \<Rightarrow> 'n JsonArray \<Rightarrow> string list \<Rightarrow> LineWriter \<Rightarrow> nat \<Rightarrow> ResolvedOptions \<Rightarrow> LineWriter" where
  "writeTabularRows rt [] header w depth opts = w"
| "writeTabularRows rt (row # rows) header w depth opts =
     writeTabularRows rt rows header
       (push w depth
          (encodeAndJoinPrimitives rt (map (\<lambda>key. Some (getPrimitive rt row key)) header) (delimiter opts)))
       depth opts"

definition encodeArrayOfObjectsAsTabular ::
  "'n runtime \<Rightarrow> string option \<Rightarrow> 'n JsonArray \<Rightarrow> string list \<Rightarrow> LineWriter \<Rightarrow> nat \<Rightarrow> ResolvedOptions
    \<Rightarrow> LineWriter" where
  "encodeArrayOfObjectsAsTabular rt prefix rows header w depth opts =
     writeTabularRows rt rows header
       (push w depth (formatHeader (length rows) prefix (Some header) (delimiter opts) (lengthMarker opts)))
       (depth + 1) opts"

definition isPrimitiveArray :: "'n JsonValue \<Rightarrow> bool" where
  "isPrimitiveArray v = (case v of JArray xs \<Rightarrow> isArrayOfPrimitives xs | _ \<Rightarrow> False)"

text \<open>
  The loop of \<open>encodeArrayOfArraysAsListItems\<close> over its arrays. For a hole the loop
  variable is \<open>undefined\<close>, and \<open>isArrayOfPrimitives\<close> throws when it reads \<open>every\<close> of
  it. The elements are arrays of primitives or holes where the source calls it.
\<close>

fun pushInlineArrays ::
  "'n runtime \<Rightarrow> 'n JsonArray \<Rightarrow> LineWriter \<Rightarrow> nat \<Rightarrow> ResolvedOptions \<Rightarrow> error + LineWriter" where
  "pushInlineArrays rt [] w depth opts = Inr w"
| "pushInlineArrays rt (arr # arrs) w depth opts =
     (case arr of
        JArray xs \<Rightarrow>
          pushInlineArrays rt arrs
            (if isArrayOfPrimitives xs
             then pushListItem w (depth + 1)
                    (encodeInlineArrayLine rt (asPrimitives xs) (delimiter opts) None (lengthMarker opts))
             else w)
            depth opts
      | _ \<Rightarrow> Inl TypeError)"

definition encodeArrayOfArraysAsListItems ::
  "'n runtime \<Rightarrow> string option \<Rightarrow> 'n JsonArray \<Rightarrow> LineWriter \<Rightarrow> nat \<Rightarrow> ResolvedOptions
    \<Rightarrow> error + LineWriter" where
  "encodeArrayOfArraysAsListItems rt prefix vs w depth opts =
     pushInlineArrays rt vs
       (push w depth (formatHeader (length vs) prefix None (delimiter opts) (lengthMarker opts)))
       depth opts"

text \<open>
  The recursive part of the encoder. \<open>encodeObject\<close> is the loop over the own entries of
  an object, \<open>encodeListItems\<close> the loop \<open>for (const item of items) encodeListItemValue(...)\<close>,
  \<open>encodeObjectItems\<close> the loop that encodes only the items that are objects. The loop over
  the remaining keys of \<open>encodeObjectAsListItem\<close> is \<open>encodeObject\<close> on the entries
  after the first. A hole reaches these functions as \<open>undefined\<close>, which is neither a
  primitive nor an array nor an object.
\<close>

function (sequential)
  encodeObject ::
    "'n runtime \<Rightarrow> 'n Entries \<Rightarrow> LineWriter \<Rightarrow> nat \<Rightarrow> ResolvedOptions \<Rightarrow> error + LineWriter"
and encodeKeyValuePair ::
    "'n runtime \<Rightarrow> string \<Rightarrow> 'n JsonValue \<Rightarrow> LineWriter \<Rightarrow> nat \<Rightarrow> ResolvedOptions \<Rightarrow> error + LineWriter"
and encodeArray ::
    "'n runtime \<Rightarrow> string option \<Rightarrow> 'n JsonArray \<Rightarrow> LineWriter \<Rightarrow> nat \<Rightarrow> ResolvedOptions
      \<Rightarrow> error + LineWriter"
and encodeMixedArrayAsListItems ::
    "'n runtime \<Rightarrow> string option \<Rightarrow> 'n JsonArray \<Rightarrow> LineWriter \<Rightarrow> nat \<Rightarrow> ResolvedOptions
      \<Rightarrow> error + LineWriter"
and encodeListItems ::
    "'n runtime \<Rightarrow> 'n JsonArray \<Rightarrow> LineWriter \<Rightarrow> nat \<Rightarrow> ResolvedOptions \<Rightarrow> error + LineWriter"
and encodeListItemValue ::
    "'n runtime \<Rightarrow> 'n JsonValue \<Rightarrow> LineWriter \<Rightarrow> nat \<Rightarrow> ResolvedOptions \<Rightarrow> error + LineWriter"
and encodeObjectItems ::
    "'n runtime \<Rightarrow> 'n JsonArray \<Rightarrow> LineWriter \<Rightarrow> nat \<Rightarrow> ResolvedOptions \<Rightarrow> error + LineWriter"
and encodeObjectAsListItem ::
    "'n runtime \<Rightarrow> 'n Entries \<Rightarrow> LineWriter \<Rightarrow> nat \<Rightarrow> ResolvedOptions \<Rightarrow> error + LineWriter"
where
  "encodeObject rt [] w depth opts = Inr w"
| "encodeObject rt ((key, v) # rest) w depth opts =
     bindE (encodeKeyValuePair rt key v w depth opts)
       (\<lambda>w1. encodeObject rt rest w1 depth opts)"
| "encodeKeyValuePair rt key (Prim p) w depth opts =
     Inr (push w depth (encodeKey key @ '': '' @ encodePrimitive rt p (delimiter opts)))"
| "encodeKeyValuePair rt key (JArray xs) w depth opts =
     encodeArray rt (Some key) xs w depth opts"
| "encodeKeyValuePair rt key (JObject (es, p)) w depth opts =
     (if es = [] then Inr (push w depth (encodeKey key @ '':''))
      else encodeObject rt es (push w depth (encodeKey key @ '':'')) (depth + 1) opts)"
| "encodeKeyValuePair rt key Hole w depth opts = Inr w"
| "encodeArray rt key vs w depth opts =
     (if vs = [] then Inr (push w depth (formatHeader 0 key None (delimiter opts) (lengthMarker opts)))
      else if isArrayOfPrimitives vs
      then Inr (push w depth
                  (encodeInlineArrayLine rt (asPrimitives vs) (delimiter opts) key (lengthMarker opts)))
      else if isArrayOfArrays vs \<and> every isPrimitiveArray vs
      then encodeArrayOfArraysAsListItems rt key vs w depth opts
      else if isArrayOfObjects vs
      then bindE (extractTabularHeader rt vs)
             (\<lambda>header. case header of
                  Some h \<Rightarrow> Inr (encodeArrayOfObjectsAsTabular rt key vs h w depth opts)
                | None \<Rightarrow> encodeMixedArrayAsListItems rt key vs w depth opts)
      else encodeMixedArrayAsListItems rt key vs w depth opts)"
| "encodeMixedArrayAsListItems rt prefix items w depth opts =
     encodeListItems rt items
       (push w depth (formatHeader (length items) prefix None (delimiter opts) (lengthMarker opts)))
       (depth + 1) opts"
| "encodeListItems rt [] w depth opts = Inr w"
| "encodeListItems rt (item # items) w depth opts =
     bindE (encodeListItemValue rt item w depth opts)
       (\<lambda>w1. encodeListItems rt items w1 depth opts)"
| "encodeListItemValue rt (Prim p) w depth opts =
     Inr (pushListItem w depth (encodePrimitive rt p (delimiter opts)))"
| "encodeListItemValue rt (JArray xs) w depth opts =
     (if isArrayOfPrimitives xs
      then Inr (pushListItem w depth
                  (encodeInlineArrayLine rt (asPrimitives xs) (delimiter opts) None (lengthMarker opts)))
      else Inr w)"
| "encodeListItemValue rt (JObject (es, p)) w depth opts =
     encodeObjectAsListItem rt es w depth opts"
| "encodeListItemValue rt Hole w depth opts = Inr w"
| "encodeObjectItems rt [] w depth opts = Inr w"
| "encodeObjectItems rt (JObject (es, p) # items) w depth opts =
     bindE (encodeObjectAsListItem rt es w depth opts)
       (\<lambda>w1. encodeObjectItems rt items w1 depth opts)"
| "encodeObjectItems rt (_ # items) w depth opts = encodeObjectItems rt items w depth opts"
| "encodeObjectAsListItem rt [] w depth opts = Inr (push w depth ''-'')"
| "encodeObjectAsListItem rt ((firstKey, Prim p) # rest) w depth opts =
     encodeObject rt rest
       (pushListItem w depth (encodeKey firstKey @ '': '' @ encodePrimitive rt p (delimiter opts)))
       (depth + 1) opts"
| "encodeObjectAsListItem rt ((firstKey, JArray xs) # rest) w depth opts =
     bindE
       (if isArrayOfPrimitives xs
        then Inr (pushListItem w depth
                    (encodeInlineArrayLine rt (asPrimitives xs) (delimiter opts) (Some firstKey)
                       (lengthMarker opts)))
        else if isArrayOfObjects xs
        then bindE (extractTabularHeader rt xs)
               (\<lambda>header. case header of
                    Some h \<Rightarrow>
                      Inr (writeTabularRows rt xs h
                             (pushListItem w depth
                                (formatHeader (length xs) (Some firstKey) (Some h) (delimiter opts)
                                   (lengthMarker opts)))
                             (depth + 1) opts)
                  | None \<Rightarrow>
                      encodeObjectItems rt xs
                        (pushListItem w depth (encodeKey firstKey @ ''['' @ natToString (length xs) @ '']:''))
                        (depth + 1) opts)
        else encodeListItems rt xs
               (pushListItem w depth (encodeKey firstKey @ ''['' @ natToString (length xs) @ '']:''))
               (depth + 1) opts)
       (\<lambda>w1. encodeObject rt rest w1 (depth + 1) opts)"
| "encodeObjectAsListItem rt ((firstKey, JObject (es, p)) # rest) w depth opts =
     bindE
       (if es = [] then Inr (pushListItem w depth (encodeKey firstKey @ '':''))
        else encodeObject rt es (pushListItem w depth (encodeKey firstKey @ '':'')) (depth + 2) opts)
       (\<lambda>w1. encodeObject rt rest w1 (depth + 1) opts)"
| "encodeObjectAsListItem rt ((firstKey, Hole) # rest) w depth opts =
     encodeObject rt rest w (depth + 1) opts"
  by pat_completeness auto

termination
  by (relation "measure (\<lambda>x. case x of
         Inl a \<Rightarrow> (case a of
             Inl b \<Rightarrow> (case b of
                 Inl (rt, es, r) \<Rightarrow> 3 * size_list (size_prod (\<lambda>_. 0) size) es
               | Inr (rt, key, v, r) \<Rightarrow> 3 * size v)
           | Inr b \<Rightarrow> (case b of
                 Inl (rt, key, vs, r) \<Rightarrow> 3 * size_list size vs + 2
               | Inr (rt, key, vs, r) \<Rightarrow> 3 * size_list size vs + 1))
       | Inr a \<Rightarrow> (case a of
             Inl b \<Rightarrow> (case b of
                 Inl (rt, vs, r) \<Rightarrow> 3 * size_list size vs
               | Inr (rt, v, r) \<Rightarrow> 3 * size v)
           | Inr b \<Rightarrow> (case b of
                 Inl (rt, vs, r) \<Rightarrow> 3 * size_list size vs
               | Inr (rt, es, r) \<Rightarrow> 3 * size_list (size_prod (\<lambda>_. 0) size) es)))")
     auto

text \<open>
  \<open>encodeValue\<close>. A value that is neither a primitive nor an array nor an object leaves
  the writer empty.
\<close>

definition encodeValue :: "'n runtime \<Rightarrow> 'n JsonValue \<Rightarrow> ResolvedOptions \<Rightarrow> error + string" where
  "encodeValue rt v opts =
     (case v of
        Prim p \<Rightarrow> Inr (encodePrimitive rt p (delimiter opts))
      | JArray xs \<Rightarrow>
          bindE (encodeArray rt None xs (newLineWriter (indent opts)) 0 opts)
            (\<lambda>w. Inr (writerToString w))
      | JObject obj \<Rightarrow>
          bindE (encodeObject rt (fst obj) (newLineWriter (indent opts)) 0 opts)
            (\<lambda>w. Inr (writerToString w))
      | Hole \<Rightarrow> Inr (writerToString (newLineWriter (indent opts))))"

text \<open>\<open>EncodeOptions\<close>: every field may be absent, and so may the options themselves.\<close>

record EncodeOptions =
  indentOption :: "nat option"
  delimiterOption :: "Delimiter option"
  lengthMarkerOption :: "bool option"

definition encode :: "'n runtime \<Rightarrow> 'n HostValue \<Rightarrow> EncodeOptions option \<Rightarrow> error + string" where
  "encode rt input options =
     bindE (normalizeValue rt input)
       (\<lambda>v. encodeValue rt v
          \<lparr>indent = (case Option.bind options indentOption of Some i \<Rightarrow> i | None \<Rightarrow> 2),
           delimiter = (case Option.bind options delimiterOption of Some d \<Rightarrow> d | None \<Rightarrow> Comma),
           lengthMarker = (case Option.bind options lengthMarkerOption of Some m \<Rightarrow> m | None \<Rightarrow> False)\<rparr>)"

text \<open>The runtime when every number is an integer that \<open>String\<close> prints in plain decimal.\<close>

definition intRuntime :: "int runtime" where
  "intRuntime = \<lparr>numToString = intToString, numOfInt = (\<lambda>i. i)\<rparr>"

section \<open>Decoder\<close>

record DecodeOptions =
  strictOption :: "bool option"
  decodeIndentOption :: "nat option"

record ScannerOptions =
  strict :: bool
  indentSize :: nat

datatype TokenType = KEY | VALUE | COLON | ARRAY_HEADER | LIST_ITEM | NEWLINE | EOF

text \<open>
  \<open>Token['arrayInfo']\<close> and \<open>Token\<close>; indentation is an integer because the scanner
  starts \<open>arrayIndent\<close> at \<open>-1\<close>.
\<close>

record ArrayInfo =
  arrayKey :: "string option"
  arrayLength :: nat
  arrayFields :: "string list option"
  arrayDelimiter :: char
  inlineValues :: "string option"

record Token =
  tokenType :: TokenType
  tokenValue :: string
  tokenIndent :: int
  tokenLine :: nat
  arrayInfo :: "ArrayInfo option"
  hadTabIndent :: bool

record IndentInfo =
  indentCount :: nat
  indentHadTab :: bool

text \<open>\<open>s.substring(a, b)\<close>: both ends clamped to the length, and swapped when \<open>a > b\<close>.\<close>

definition substring :: "string \<Rightarrow> nat \<Rightarrow> nat \<Rightarrow> string" where
  "substring s a b =
     (let a' = min a (length s); b' = min b (length s)
      in take (max a' b' - min a' b') (drop (min a' b') s))"

subsection \<open>Scanner\<close>

text \<open>\<open>Scanner.constructor\<close>: the options as the scanner resolves them.\<close>

definition scannerOptions :: "DecodeOptions option \<Rightarrow> ScannerOptions" where
  "scannerOptions options =
     \<lparr>strict = (case Option.bind options strictOption of Some b \<Rightarrow> b | None \<Rightarrow> True),
      indentSize = (case Option.bind options decodeIndentOption of Some i \<Rightarrow> i | None \<Rightarrow> 2)\<rparr>"

text \<open>
  \<open>getIndent\<close>: the loop over the characters of the line, then the check of the count.
  With \<open>indent\<close> zero, \<open>count % indent\<close> is \<open>NaN\<close>, which differs from \<open>0\<close>.
\<close>

fun getIndentLoop :: "ScannerOptions \<Rightarrow> nat \<Rightarrow> string \<Rightarrow> IndentInfo \<Rightarrow> error + IndentInfo" where
  "getIndentLoop opts lineNum [] info = Inr info"
| "getIndentLoop opts lineNum (c # cs) info =
     (if c = SPACE then getIndentLoop opts lineNum cs (info\<lparr>indentCount := indentCount info + 1\<rparr>)
      else if c = TAB
      then (if strict opts then Inl (TabInIndentation lineNum)
            else getIndentLoop opts lineNum cs (info\<lparr>indentHadTab := True\<rparr>))
      else Inr info)"

definition getIndent :: "ScannerOptions \<Rightarrow> string \<Rightarrow> nat \<Rightarrow> error + IndentInfo" where
  "getIndent opts line lineNum =
     bindE (getIndentLoop opts lineNum line \<lparr>indentCount = 0, indentHadTab = False\<rparr>)
       (\<lambda>info.
          if strict opts \<and> indentCount info > 0
             \<and> (indentSize opts = 0 \<or> indentCount info mod indentSize opts \<noteq> 0)
          then Inl (IndentationNotMultiple lineNum (indentSize opts) (indentCount info))
          else Inr info)"

text \<open>\<open>findMainColon\<close>: the index of the first colon outside double quotes, if any.\<close>

fun findMainColonLoop :: "string \<Rightarrow> nat \<Rightarrow> bool \<Rightarrow> bool \<Rightarrow> nat option" where
  "findMainColonLoop [] i inQuotes escapeNext = None"
| "findMainColonLoop (c # cs) i inQuotes escapeNext =
     (if escapeNext then findMainColonLoop cs (i + 1) inQuotes False
      else if c = BACKSLASH then findMainColonLoop cs (i + 1) inQuotes True
      else if c = DOUBLE_QUOTE then findMainColonLoop cs (i + 1) (\<not> inQuotes) False
      else if \<not> inQuotes \<and> c = COLON_CHAR then Some i
      else findMainColonLoop cs (i + 1) inQuotes False)"

definition findMainColon :: "string \<Rightarrow> nat option" where
  "findMainColon str = findMainColonLoop str 0 False False"

fun splitByDelimiterLoop :: "char \<Rightarrow> string \<Rightarrow> string \<Rightarrow> bool \<Rightarrow> bool \<Rightarrow> string list \<Rightarrow> string list" where
  "splitByDelimiterLoop d [] current inQuotes escapeNext result =
     (if current \<noteq> [] then result @ [current] else result)"
| "splitByDelimiterLoop d (c # cs) current inQuotes escapeNext result =
     (if escapeNext then splitByDelimiterLoop d cs (current @ [c]) inQuotes False result
      else if c = BACKSLASH then splitByDelimiterLoop d cs (current @ [c]) inQuotes True result
      else if c = DOUBLE_QUOTE then splitByDelimiterLoop d cs (current @ [c]) (\<not> inQuotes) False result
      else if \<not> inQuotes \<and> c = d then splitByDelimiterLoop d cs [] inQuotes False (result @ [current])
      else splitByDelimiterLoop d cs (current @ [c]) inQuotes False result)"

definition splitByDelimiter :: "string \<Rightarrow> char \<Rightarrow> string list" where
  "splitByDelimiter str d = splitByDelimiterLoop d str [] False False []"

fun unescapeString :: "string \<Rightarrow> error + string" where
  "unescapeString [] = Inr []"
| "unescapeString [c] = (if c = BACKSLASH then Inl EscapeAtEndOfString else Inr [c])"
| "unescapeString (c # nextChar # cs) =
     (if c = BACKSLASH
      then (if nextChar = CHR ''n'' then bindE (unescapeString cs) (\<lambda>r. Inr (LF # r))
            else if nextChar = CHR ''r'' then bindE (unescapeString cs) (\<lambda>r. Inr (CR # r))
            else if nextChar = CHR ''t'' then bindE (unescapeString cs) (\<lambda>r. Inr (TAB # r))
            else if nextChar = DOUBLE_QUOTE then bindE (unescapeString cs) (\<lambda>r. Inr (DOUBLE_QUOTE # r))
            else if nextChar = BACKSLASH then bindE (unescapeString cs) (\<lambda>r. Inr (BACKSLASH # r))
            else Inl (InvalidEscapeSequence nextChar))
      else bindE (unescapeString (nextChar # cs)) (\<lambda>r. Inr (c # r)))"

definition unescapeKey :: "string \<Rightarrow> error + string" where
  "unescapeKey k =
     (if startsWith k [DOUBLE_QUOTE] \<and> endsWith k [DOUBLE_QUOTE]
      then unescapeString (substring k 1 (length k - 1))
      else Inr k)"

text \<open>
  The groups of
  \<open>/^(?:([^[\]]+))?\[([#])?(\d+)([,\t|])?\](?:\{([^}]+)\})?:\s*(.*)$/\<close>:
  key, marker, length, delimiter, fields, rest. The dot matches no line terminator, so the
  text after the colon and its leading white space must hold none.
\<close>

record HeaderMatch =
  keyGroup :: "string option"
  lengthGroup :: string
  delimiterGroup :: "char option"
  fieldsGroup :: "string option"
  restGroup :: string

definition matchFieldsGroup :: "string \<Rightarrow> (string option \<times> string) option" where
  "matchFieldsGroup s =
     (case s of
        [] \<Rightarrow> Some (None, s)
      | c # r \<Rightarrow>
          if c = CHR ''{''
          then (let f = takeWhile (\<lambda>x. x \<noteq> CHR ''}'') r; r' = dropWhile (\<lambda>x. x \<noteq> CHR ''}'') r
                in if f \<noteq> [] \<and> r' \<noteq> [] then Some (Some f, tl r') else None)
          else Some (None, s))"

definition matchArrayPattern :: "string \<Rightarrow> HeaderMatch option" where
  "matchArrayPattern str =
     (let k = takeWhile (\<lambda>c. c \<noteq> CHR ''['' \<and> c \<noteq> CHR '']'') str;
          r0 = dropWhile (\<lambda>c. c \<noteq> CHR ''['' \<and> c \<noteq> CHR '']'') str
      in case lit (CHR ''['') r0 of None \<Rightarrow> None | Some r1 \<Rightarrow>
         let r2 = optChar (\<lambda>c. c = CHR ''#'') r1 in
         case digits1 r2 of None \<Rightarrow> None | Some r3 \<Rightarrow>
         let ds = takeWhile isDigit r2;
             dl = (case r3 of [] \<Rightarrow> None | c # _ \<Rightarrow> if c \<in> set [CHR '','', TAB, CHR ''|''] then Some c else None);
             r4 = (case dl of None \<Rightarrow> r3 | Some _ \<Rightarrow> tl r3) in
         case lit (CHR '']'') r4 of None \<Rightarrow> None | Some r5 \<Rightarrow>
         case matchFieldsGroup r5 of None \<Rightarrow> None | Some (fs, r6) \<Rightarrow>
         case lit COLON_CHAR r6 of None \<Rightarrow> None | Some r7 \<Rightarrow>
         let v = dropWhile isWhiteSpace r7 in
         if list_ex (\<lambda>c. c = LF \<or> c = CR) v then None
         else Some \<lparr>keyGroup = (if k = [] then None else Some k), lengthGroup = ds,
                     delimiterGroup = dl, fieldsGroup = fs, restGroup = v\<rparr>)"

text \<open>What both \<open>parseArrayHeader\<close> and \<open>parseArrayHeaderString\<close> compute from the groups.\<close>

definition headerKey :: "HeaderMatch \<Rightarrow> string option" where
  "headerKey m = (case keyGroup m of None \<Rightarrow> None | Some k \<Rightarrow> if trim k = [] then None else Some (trim k))"

definition headerDelimiter :: "HeaderMatch \<Rightarrow> char" where
  "headerDelimiter m = (case delimiterGroup m of Some d \<Rightarrow> d | None \<Rightarrow> CHR '','')"

definition headerFields :: "HeaderMatch \<Rightarrow> error + string list option" where
  "headerFields m =
     (case fieldsGroup m of
        None \<Rightarrow> Inr None
      | Some fieldsStr \<Rightarrow>
          bindE (mapE (\<lambda>f. unescapeKey (trim f)) (splitByDelimiter fieldsStr (headerDelimiter m)))
            (\<lambda>fs. Inr (Some fs)))"

definition parseArrayHeader :: "string \<Rightarrow> error + ArrayInfo option" where
  "parseArrayHeader str =
     (case matchArrayPattern str of
        None \<Rightarrow> Inr None
      | Some m \<Rightarrow>
          bindE (headerFields m)
            (\<lambda>fs. Inr (Some \<lparr>arrayKey = headerKey m, arrayLength = parseInt (lengthGroup m),
                              arrayFields = fs, arrayDelimiter = headerDelimiter m,
                              inlineValues = (if trim (restGroup m) \<noteq> [] then Some (trim (restGroup m))
                                              else None)\<rparr>)))"

text \<open>\<open>/^[\d,\s]+$/.test(key)\<close>\<close>

definition onlyDigitsCommasSpaces :: "string \<Rightarrow> bool" where
  "onlyDigitsCommasSpaces k = (k \<noteq> [] \<and> list_all (\<lambda>c. isDigit c \<or> c = CHR '','' \<or> isWhiteSpace c) k)"

definition mkToken :: "TokenType \<Rightarrow> string \<Rightarrow> int \<Rightarrow> nat \<Rightarrow> ArrayInfo option \<Rightarrow> bool \<Rightarrow> Token" where
  "mkToken ty v ind lineNo ai tab =
     \<lparr>tokenType = ty, tokenValue = v, tokenIndent = ind, tokenLine = lineNo, arrayInfo = ai, hadTabIndent = tab\<rparr>"

record ScanState =
  insideArray :: bool
  arrayIndentOf :: int
  scanned :: "Token list"

text \<open>
  The tokens of one non-blank line, after \<open>getIndent\<close> and the first \<open>parseArrayHeader\<close>:
  a list item, an array header, a key with its colon and value, or a plain value.
\<close>

definition lineTokens :: "string \<Rightarrow> int \<Rightarrow> nat \<Rightarrow> bool \<Rightarrow> ArrayInfo option \<Rightarrow> error + Token list" where
  "lineTokens trimmed ind i tab arrayHeaderMatch =
     (if startsWith trimmed ''- ''
      then Inr [mkToken LIST_ITEM (drop 2 trimmed) ind i None tab]
      else case arrayHeaderMatch of
        Some info \<Rightarrow> Inr [mkToken ARRAY_HEADER trimmed ind i (Some info) tab]
      | None \<Rightarrow>
          (let plain = Inr [mkToken VALUE trimmed ind i None tab] in
           if COLON_CHAR \<in> set trimmed
           then (case findMainColon trimmed of
                   None \<Rightarrow> plain
                 | Some colonIndex \<Rightarrow>
                     (let k = trim (take colonIndex trimmed);
                          v = trim (drop (colonIndex + 1) trimmed);
                          isQuotedKey = (startsWith k [DOUBLE_QUOTE] \<and> endsWith k [DOUBLE_QUOTE]);
                          looksLikeKeyValue =
                            (isQuotedKey \<or> (CHR '','' \<notin> set k \<and> length k < 100
                                             \<and> \<not> onlyDigitsCommasSpaces k))
                      in if looksLikeKeyValue
                         then bindE (unescapeKey k)
                                (\<lambda>uk. Inr ([mkToken KEY uk ind i None tab,
                                             mkToken COLON '':'' ind i None tab]
                                            @ (if v \<noteq> [] then [mkToken VALUE v ind i None tab] else [])))
                         else plain))
           else plain))"

text \<open>
  The loop of \<open>scan\<close>: \<open>i\<close> is the index of \<open>line\<close>, \<open>rest\<close> the lines after it. On a
  blank line in strict mode inside an array it looks ahead to the next non-blank line.
\<close>

fun scanLoop :: "ScannerOptions \<Rightarrow> nat \<Rightarrow> string list \<Rightarrow> ScanState \<Rightarrow> error + ScanState" where
  "scanLoop opts i [] st = Inr st"
| "scanLoop opts i (line # rest) st =
     (if trim line = []
      then (if strict opts \<and> insideArray st
            then (let blanks = takeWhile (\<lambda>l. trim l = []) rest
                  in case dropWhile (\<lambda>l. trim l = []) rest of
                       [] \<Rightarrow> scanLoop opts (i + 1) rest st
                     | nextLine # _ \<Rightarrow>
                         bindE (getIndent opts nextLine (i + 1 + length blanks + 1))
                           (\<lambda>nextIndent.
                              if int (indentCount nextIndent) > arrayIndentOf st
                              then Inl (BlankLineInArray
                                          (if scanned st \<noteq> [] \<and> tokenType (last (scanned st)) = LIST_ITEM
                                           then ''list array'' else ''tabular array''))
                              else scanLoop opts (i + 1) rest st))
            else scanLoop opts (i + 1) rest st)
      else bindE (getIndent opts line (i + 1))
        (\<lambda>indentInfo.
           let ind = int (indentCount indentInfo); trimmed = trim line
           in bindE (parseArrayHeader trimmed)
                (\<lambda>arrayCheck.
                   let st1 = (if arrayCheck \<noteq> None then st\<lparr>insideArray := True, arrayIndentOf := ind\<rparr>
                              else if insideArray st \<and> ind \<le> arrayIndentOf st
                              then st\<lparr>insideArray := False, arrayIndentOf := - 1\<rparr>
                              else st)
                   in bindE (lineTokens trimmed ind i (indentHadTab indentInfo) arrayCheck)
                        (\<lambda>ts. scanLoop opts (i + 1) rest (st1\<lparr>scanned := scanned st1 @ ts\<rparr>)))))"

definition scan :: "ScannerOptions \<Rightarrow> string \<Rightarrow> error + Token list" where
  "scan opts input =
     (let inputLines = splitLines input
      in bindE (scanLoop opts 0 inputLines \<lparr>insideArray = False, arrayIndentOf = - 1, scanned = []\<rparr>)
           (\<lambda>st. Inr (scanned st @ [mkToken EOF [] 0 (length inputLines) None False])))"

subsection \<open>Parser\<close>

text \<open>
  \<open>toNumber\<close> stands for the runtime's \<open>Number(text)\<close> followed by the test
  \<open>!Number.isNaN(num) && Number.isFinite(num)\<close>: it is \<open>None\<close> when the test fails.
\<close>

text \<open>\<open>(0|[1-9]\d*)\<close> and \<open>/^-?(0|[1-9]\d*)(\.\d+)?([eE][+-]?\d+)?$/\<close>\<close>

definition integerPart :: "string \<Rightarrow> string option" where
  "integerPart s =
     (case s of [] \<Rightarrow> None
      | c # r \<Rightarrow> if c = CHR ''0'' then Some r
                 else if c \<in> set ''123456789'' then Some (dropWhile isDigit r)
                 else None)"

definition strictNumberShape :: "string \<Rightarrow> bool" where
  "strictNumberShape s =
     (case integerPart (optChar (\<lambda>c. c = CHR ''-'') s) of
        None \<Rightarrow> False
      | Some r \<Rightarrow> optGroup exponentPart (optGroup fractionPart r) = [])"

definition parsePrimitive :: "(string \<Rightarrow> 'n option) \<Rightarrow> string \<Rightarrow> error + 'n JsonPrimitive" where
  "parsePrimitive toNumber v =
     (let trimmed = trim v
      in if trimmed = ''null'' then Inr JNull
         else if trimmed = ''true'' then Inr (JBool True)
         else if trimmed = ''false'' then Inr (JBool False)
         else case (if strictNumberShape trimmed then toNumber trimmed else None) of
                Some num \<Rightarrow> Inr (JNumber num)
              | None \<Rightarrow>
                  if startsWith trimmed [DOUBLE_QUOTE]
                  then (if \<not> endsWith trimmed [DOUBLE_QUOTE] \<or> length trimmed < 2
                        then Inl UnterminatedQuotedString
                        else bindE (unescapeString (substring trimmed 1 (length trimmed - 1)))
                               (\<lambda>u. Inr (JString u)))
                  else Inr (JString trimmed))"

record HeaderString =
  headerStringKey :: "string option"
  headerStringLength :: nat
  headerStringFields :: "string list option"
  headerStringDelimiter :: char
  valuesStr :: string

definition parseArrayHeaderString :: "string \<Rightarrow> error + HeaderString option" where
  "parseArrayHeaderString str =
     (case matchArrayPattern str of
        None \<Rightarrow> Inr None
      | Some m \<Rightarrow>
          bindE (headerFields m)
            (\<lambda>fs. Inr (Some \<lparr>headerStringKey = headerKey m, headerStringLength = parseInt (lengthGroup m),
                              headerStringFields = fs, headerStringDelimiter = headerDelimiter m,
                              valuesStr = restGroup m\<rparr>)))"

definition parsePrimitives :: "(string \<Rightarrow> 'n option) \<Rightarrow> string list \<Rightarrow> error + 'n JsonArray" where
  "parsePrimitives toNumber vs =
     bindE (mapE (\<lambda>v. parsePrimitive toNumber (trim v)) vs) (\<lambda>ps. Inr (map Prim ps))"

definition parseInlineArray :: "(string \<Rightarrow> 'n option) \<Rightarrow> HeaderString \<Rightarrow> error + 'n JsonArray" where
  "parseInlineArray toNumber info =
     (let vs = splitByDelimiter (valuesStr info) (headerStringDelimiter info)
      in case headerStringFields info of
           None \<Rightarrow> parsePrimitives toNumber vs
         | Some fs \<Rightarrow> if fs \<noteq> [] then Inr [] else parsePrimitives toNumber vs)"

record ParserState =
  tokens :: "Token list"
  position :: nat

definition current :: "ParserState \<Rightarrow> Token option" where
  "current st = (if position st < length (tokens st) then Some (tokens st ! position st) else None)"

definition advance :: "ParserState \<Rightarrow> ParserState" where
  "advance st = st\<lparr>position := position st + 1\<rparr>"

text \<open>\<open>this.position--; this.tokens[this.position] = token\<close>\<close>

definition inject :: "ParserState \<Rightarrow> Token \<Rightarrow> ParserState" where
  "inject st t = st\<lparr>position := position st - 1, tokens := (tokens st)[position st - 1 := t]\<rparr>"

text \<open>\<open>Object.assign(obj, nestedObj)\<close>: each own entry of \<open>nestedObj\<close> is assigned to \<open>obj\<close>.\<close>

definition assign :: "'n JsonObject \<Rightarrow> 'n JsonObject \<Rightarrow> 'n JsonObject" where
  "assign obj nested = foldl (\<lambda>acc (k, v). setProp acc k v) obj (fst nested)"

definition hasComplexNesting :: "'n JsonArray \<Rightarrow> bool" where
  "hasComplexNesting items =
     list_ex (\<lambda>item. case item of
                        JObject obj \<Rightarrow> list_ex (\<lambda>(k, v). isJsonArray v) (fst obj)
                      | _ \<Rightarrow> False) items"

text \<open>The tabular branch of \<open>parseArray\<close>: counting the rows ahead, then reading them.\<close>

fun countRows :: "Token list \<Rightarrow> int \<Rightarrow> nat" where
  "countRows [] arrayIndent = 0"
| "countRows (t # ts) arrayIndent =
     (if tokenType t = EOF then 0
      else if tokenIndent t \<le> arrayIndent then 0
      else if tokenType t = VALUE then 1 + countRows ts arrayIndent
      else 0)"

definition parseRow :: "(string \<Rightarrow> 'n option) \<Rightarrow> string list \<Rightarrow> char \<Rightarrow> string \<Rightarrow> error + 'n JsonValue" where
  "parseRow toNumber fs d row =
     (let vs = splitByDelimiter row d
      in if length vs \<noteq> length fs then Inl (TabularRowValueCountMismatch (length fs) (length vs))
         else bindE (mapE (\<lambda>v. parsePrimitive toNumber (trim v)) vs)
                (\<lambda>ps. Inr (JObject (foldl (\<lambda>obj (k, p). setProp obj k (Prim p)) emptyObject (zip fs ps)))))"

fun parseRows ::
  "(string \<Rightarrow> 'n option) \<Rightarrow> nat \<Rightarrow> string list \<Rightarrow> char \<Rightarrow> int \<Rightarrow> ParserState \<Rightarrow> 'n JsonArray
    \<Rightarrow> error + ('n JsonArray \<times> ParserState)" where
  "parseRows toNumber 0 fs d arrayIndent st result = Inr (result, st)"
| "parseRows toNumber (Suc k) fs d arrayIndent st result =
     (case current st of
        None \<Rightarrow> Inr (result, st)
      | Some rowToken \<Rightarrow>
          if tokenType rowToken = EOF then Inr (result, st)
          else if tokenIndent rowToken \<le> arrayIndent then Inr (result, st)
          else if tokenType rowToken = VALUE
          then bindE (parseRow toNumber fs d (tokenValue rowToken))
                 (\<lambda>obj. parseRows toNumber k fs d arrayIndent (advance st) (result @ [obj]))
          else Inr (result, st))"

text \<open>
  The recursive part of the parser. The first argument is the fuel; each call and each
  round of a loop takes one unit. \<open>parseObject\<close> and \<open>parseListItems\<close> are the loops of
  those methods, with the result so far as last argument. Three blocks of the source are
  functions of their own here: \<open>parseAfterColon\<close> is what \<open>parse\<close> and \<open>parseObject\<close> do
  after the colon of a key (\<open>compactBase\<close> is \<open>token.indent === 0\<close> in the first and
  \<open>baseIndent === 0\<close> in the second); \<open>parseListItemObject\<close> is the branch of
  \<open>parseListItems\<close> for a content with a main colon; \<open>additionalProperties\<close> is the block
  that merges the deeper keys that follow into the object of a list item.
\<close>

function (sequential) parseObject ::
    "nat \<Rightarrow> (string \<Rightarrow> 'n option) \<Rightarrow> int \<Rightarrow> ParserState \<Rightarrow> 'n JsonObject
      \<Rightarrow> error + ('n JsonObject \<times> ParserState)"
and parseAfterColon ::
    "nat \<Rightarrow> (string \<Rightarrow> 'n option) \<Rightarrow> bool \<Rightarrow> Token \<Rightarrow> ParserState
      \<Rightarrow> error + ('n JsonValue option \<times> ParserState)"
and parseArray ::
    "nat \<Rightarrow> (string \<Rightarrow> 'n option) \<Rightarrow> ParserState \<Rightarrow> error + ('n JsonArray \<times> ParserState)"
and parseListItems ::
    "nat \<Rightarrow> (string \<Rightarrow> 'n option) \<Rightarrow> int \<Rightarrow> ParserState \<Rightarrow> 'n JsonArray
      \<Rightarrow> error + ('n JsonArray \<times> ParserState)"
and parseListItemObject ::
    "nat \<Rightarrow> (string \<Rightarrow> 'n option) \<Rightarrow> Token \<Rightarrow> string \<Rightarrow> string \<Rightarrow> ParserState
      \<Rightarrow> error + ('n JsonObject \<times> ParserState)"
and additionalProperties ::
    "nat \<Rightarrow> (string \<Rightarrow> 'n option) \<Rightarrow> int \<Rightarrow> 'n JsonObject \<Rightarrow> ParserState
      \<Rightarrow> error + ('n JsonObject \<times> ParserState)"
where
  "parseObject 0 toNumber baseIndent st result = Inl OutOfFuel"
| "parseObject (Suc n) toNumber baseIndent st result =
     (case current st of
        None \<Rightarrow> Inr (result, st)
      | Some token \<Rightarrow>
          if tokenType token = EOF then Inr (result, st)
          else if tokenIndent token < baseIndent then Inr (result, st)
          else if tokenIndent token > baseIndent \<and> baseIndent > 0 then Inr (result, st)
          else if tokenType token = KEY
          then (let key = tokenValue token; st1 = advance st
                in if map_option tokenType (current st1) \<noteq> Some COLON
                   then Inl (MissingColonAfterKey key)
                   else bindE (parseAfterColon n toNumber (baseIndent = 0) token (advance st1))
                          (\<lambda>(v, st2).
                             parseObject n toNumber baseIndent st2
                               (case v of Some x \<Rightarrow> setProp result key x | None \<Rightarrow> result)))
          else if tokenType token = ARRAY_HEADER
          then (case Option.bind (arrayInfo token) arrayKey of
                  None \<Rightarrow> Inr (result, st)
                | Some key \<Rightarrow>
                    if key = [] then Inr (result, st)
                    else bindE (parseArray n toNumber st)
                           (\<lambda>(arr, st1). parseObject n toNumber baseIndent st1 (setProp result key (JArray arr))))
          else Inr (result, st))"
| "parseAfterColon 0 toNumber compactBase token st = Inl OutOfFuel"
| "parseAfterColon (Suc n) toNumber compactBase token st =
     (let nextToken = current st;
          nextType = map_option tokenType nextToken;
          nextIndentOf = map_option tokenIndent nextToken;
          nextTab = map_option hadTabIndent nextToken
      in if nextType = Some VALUE \<and> (case nextIndentOf of Some i \<Rightarrow> i > tokenIndent token | None \<Rightarrow> False)
         then Inl (NestedValueWithoutColon (case nextToken of Some t \<Rightarrow> tokenValue t | None \<Rightarrow> []))
         else
           let isCompactNested = (compactBase \<and> nextIndentOf = Some 0 \<and> nextType = Some KEY \<and> nextTab \<noteq> Some True);
               isTabSibling = (nextType = Some KEY \<and> nextTab = Some True \<and> nextIndentOf = Some (tokenIndent token))
           in if isTabSibling then Inr (Some (JObject emptyObject), st)
              else if nextToken = None \<or> nextType = Some EOF
                      \<or> (case nextIndentOf of Some i \<Rightarrow> i > tokenIndent token | None \<Rightarrow> False)
                      \<or> isCompactNested
              then (let nextIndent = (case nextIndentOf of Some i \<Rightarrow> i | None \<Rightarrow> tokenIndent token + 1)
                    in if nextType = Some ARRAY_HEADER
                       then bindE (parseArray n toNumber st) (\<lambda>(arr, st1). Inr (Some (JArray arr), st1))
                       else if nextType = Some LIST_ITEM
                       then bindE (parseListItems n toNumber nextIndent st [])
                              (\<lambda>(items, st1). Inr (Some (JArray items), st1))
                       else if nextType = Some KEY
                       then bindE (parseObject n toNumber nextIndent st emptyObject)
                              (\<lambda>(obj, st1). Inr (Some (JObject obj), st1))
                       else Inr (Some (JObject emptyObject), st))
              else if nextType = Some VALUE
              then bindE (parsePrimitive toNumber (case nextToken of Some t \<Rightarrow> tokenValue t | None \<Rightarrow> []))
                     (\<lambda>p. Inr (Some (Prim p), advance st))
              else if nextType = Some ARRAY_HEADER
              then bindE (parseArray n toNumber st) (\<lambda>(arr, st1). Inr (Some (JArray arr), st1))
              else Inr (None, st))"
| "parseArray 0 toNumber st = Inl OutOfFuel"
| "parseArray (Suc n) toNumber st =
     (case current st of
        None \<Rightarrow> Inl TypeError
      | Some headerToken \<Rightarrow>
          (case arrayInfo headerToken of
             None \<Rightarrow> Inr ([], advance st)
           | Some info \<Rightarrow>
               (let len = arrayLength info; d = arrayDelimiter info;
                    arrayIndent = tokenIndent headerToken;
                    st1 = advance st;
                    fs = (case arrayFields info of Some f \<Rightarrow> f | None \<Rightarrow> []);
                    inl = (case inlineValues info of Some v \<Rightarrow> v | None \<Rightarrow> [])
                in if len = 0 then Inr ([], st1)
                   else if inl \<noteq> []
                   then (let vs = splitByDelimiter inl d
                         in if length vs \<noteq> len then Inl (ArrayLengthMismatch len (length vs))
                            else bindE (parsePrimitives toNumber vs) (\<lambda>r. Inr (r, st1)))
                   else if fs \<noteq> []
                   then (let rowCount = countRows (drop (position st1) (tokens st1)) arrayIndent
                         in if rowCount \<noteq> len then Inl (TabularRowCountMismatch len rowCount)
                            else parseRows toNumber len fs d arrayIndent st1 [])
                   else if map_option tokenType (current st1) = Some LIST_ITEM
                   then bindE (parseListItems n toNumber (arrayIndent + 1) st1 [])
                          (\<lambda>(items, st2).
                             if \<not> hasComplexNesting items \<and> length items \<noteq> len
                             then Inl (ListArrayLengthMismatch len (length items))
                             else Inr (items, st2))
                   else (case current st1 of
                           None \<Rightarrow> Inr ([], st1)
                         | Some valueToken \<Rightarrow>
                             if tokenType valueToken = VALUE \<and> tokenIndent valueToken > arrayIndent
                             then (let vs = splitByDelimiter (tokenValue valueToken) d
                                   in if length vs \<noteq> len then Inl (ArrayLengthMismatch len (length vs))
                                      else bindE (parsePrimitives toNumber vs) (\<lambda>r. Inr (r, advance st1)))
                             else Inr ([], st1)))))"
| "parseListItems 0 toNumber baseIndent st result = Inl OutOfFuel"
| "parseListItems (Suc n) toNumber baseIndent st result =
     (case current st of
        None \<Rightarrow> Inr (result, st)
      | Some token \<Rightarrow>
          if tokenType token = EOF then Inr (result, st)
          else if tokenType token \<noteq> LIST_ITEM then Inr (result, st)
          else if tokenIndent token < baseIndent then Inr (result, st)
          else
            (let content = tokenValue token; st1 = advance st
             in bindE (parseArrayHeaderString content)
                  (\<lambda>fullArrayMatch.
                     case (case fullArrayMatch of
                             Some m \<Rightarrow> if headerStringKey m = None then Some m else None
                           | None \<Rightarrow> None) of
                       Some m \<Rightarrow>
                         bindE (parseInlineArray toNumber m)
                           (\<lambda>arr. parseListItems n toNumber baseIndent st1 (result @ [JArray arr]))
                     | None \<Rightarrow>
                         (case findMainColon content of
                            Some colonIndex \<Rightarrow>
                              bindE (parseListItemObject n toNumber token
                                       (trim (take colonIndex content))
                                       (trim (drop (colonIndex + 1) content)) st1)
                                (\<lambda>(obj, st2). parseListItems n toNumber baseIndent st2 (result @ [JObject obj]))
                          | None \<Rightarrow>
                              (case fullArrayMatch of
                                 Some m \<Rightarrow>
                                   bindE (parseInlineArray toNumber m)
                                     (\<lambda>arr. parseListItems n toNumber baseIndent st1 (result @ [JArray arr]))
                               | None \<Rightarrow>
                                   bindE (parsePrimitive toNumber content)
                                     (\<lambda>p. parseListItems n toNumber baseIndent st1 (result @ [Prim p])))))))"
| "parseListItemObject 0 toNumber token key v st = Inl OutOfFuel"
| "parseListItemObject (Suc n) toNumber token key v st =
     (let itemIndent = tokenIndent token;
          nextToken = current st;
          nextDeeper = (case nextToken of Some t \<Rightarrow> tokenIndent t > itemIndent | None \<Rightarrow> False)
      in bindE (parseArrayHeaderString (key @ '':''))
           (\<lambda>keyArrayMatch.
              case (case keyArrayMatch of
                      Some m \<Rightarrow> (case headerStringKey m of Some k \<Rightarrow> Some (m, k) | None \<Rightarrow> None)
                    | None \<Rightarrow> None) of
                Some (m, actualKey) \<Rightarrow>
                  bindE
                    (if v \<noteq> []
                     then bindE (parseArrayHeaderString (key @ '': '' @ v))
                            (\<lambda>inlineMatch.
                               case inlineMatch of
                                 Some im \<Rightarrow>
                                   bindE (parseInlineArray toNumber im)
                                     (\<lambda>arr. Inr (setProp emptyObject actualKey (JArray arr), st))
                               | None \<Rightarrow> Inr (emptyObject, st))
                     else if nextDeeper
                     then bindE (parseArray n toNumber
                                   (inject st
                                      (mkToken ARRAY_HEADER (key @ '':'') itemIndent (tokenLine token)
                                         (Some \<lparr>arrayKey = Some actualKey, arrayLength = headerStringLength m,
                                                 arrayFields = headerStringFields m,
                                                 arrayDelimiter = headerStringDelimiter m,
                                                 inlineValues = None\<rparr>)
                                         False)))
                            (\<lambda>(arr, st1). Inr (setProp emptyObject actualKey (JArray arr), st1))
                     else Inr (setProp emptyObject actualKey (JArray []), st))
                    (\<lambda>(obj, st1). additionalProperties n toNumber itemIndent obj st1)
              | None \<Rightarrow>
                  bindE (parseArrayHeaderString v)
                    (\<lambda>arrayMatch.
                       case arrayMatch of
                         Some am \<Rightarrow>
                           bindE
                             (if headerStringLength am = 0
                              then bindE (unescapeKey key) (\<lambda>uk. Inr (setProp emptyObject uk (JArray []), st))
                              else if valuesStr am \<noteq> []
                              then bindE (parseInlineArray toNumber am)
                                     (\<lambda>arr. bindE (unescapeKey key) (\<lambda>uk. Inr (setProp emptyObject uk (JArray arr), st)))
                              else if nextDeeper
                              then bindE (unescapeKey key)
                                     (\<lambda>uk.
                                        bindE (parseArray n toNumber
                                                 (inject st
                                                    (mkToken ARRAY_HEADER (key @ '': '' @ v) itemIndent
                                                       (tokenLine token)
                                                       (Some \<lparr>arrayKey = None,
                                                               arrayLength = headerStringLength am,
                                                               arrayFields = headerStringFields am,
                                                               arrayDelimiter = headerStringDelimiter am,
                                                               inlineValues = None\<rparr>)
                                                       False)))
                                          (\<lambda>(arr, st1). Inr (setProp emptyObject uk (JArray arr), st1)))
                              else bindE (unescapeKey key) (\<lambda>uk. Inr (setProp emptyObject uk (JArray []), st)))
                             (\<lambda>(obj, st1). additionalProperties n toNumber itemIndent obj st1)
                       | None \<Rightarrow>
                           if v \<noteq> []
                           then bindE (unescapeKey key)
                                  (\<lambda>uk.
                                     bindE (parsePrimitive toNumber v)
                                       (\<lambda>p. additionalProperties n toNumber itemIndent (setProp emptyObject uk (Prim p)) st))
                           else if nextDeeper
                           then (let nextType = map_option tokenType nextToken;
                                     nextIndent = (case nextToken of Some t \<Rightarrow> tokenIndent t | None \<Rightarrow> 0)
                                 in bindE (unescapeKey key)
                                      (\<lambda>uk.
                                         if nextType = Some KEY
                                         then bindE (parseObject n toNumber nextIndent st emptyObject)
                                                (\<lambda>(obj, st1). Inr (setProp emptyObject uk (JObject obj), st1))
                                         else if nextType = Some ARRAY_HEADER
                                         then bindE (parseArray n toNumber st)
                                                (\<lambda>(arr, st1). Inr (setProp emptyObject uk (JArray arr), st1))
                                         else if nextType = Some LIST_ITEM
                                         then bindE (parseListItems n toNumber nextIndent st [])
                                                (\<lambda>(items, st1). Inr (setProp emptyObject uk (JArray items), st1))
                                         else Inr (setProp emptyObject uk (JObject emptyObject), st)))
                           else bindE (unescapeKey key) (\<lambda>uk. Inr (setProp emptyObject uk (JObject emptyObject), st)))))"
| "additionalProperties 0 toNumber itemIndent obj st = Inl OutOfFuel"
| "additionalProperties (Suc n) toNumber itemIndent obj st =
     (case current st of
        None \<Rightarrow> Inr (obj, st)
      | Some nextToken \<Rightarrow>
          if tokenIndent nextToken > itemIndent
             \<and> (tokenType nextToken = KEY \<or> tokenType nextToken = ARRAY_HEADER)
          then bindE (parseObject n toNumber (tokenIndent nextToken) st emptyObject)
                 (\<lambda>(nestedObj, st1). Inr (assign obj nestedObj, st1))
          else Inr (obj, st))"

  by pat_completeness auto

termination
  by (relation "measure (\<lambda>x. case x of
         Inl a \<Rightarrow> (case a of
             Inl (n, r) \<Rightarrow> n
           | Inr b \<Rightarrow> (case b of Inl (n, r) \<Rightarrow> n | Inr (n, r) \<Rightarrow> n))
       | Inr a \<Rightarrow> (case a of
             Inl (n, r) \<Rightarrow> n
           | Inr b \<Rightarrow> (case b of Inl (n, r) \<Rightarrow> n | Inr (n, r) \<Rightarrow> n)))")
     auto

text \<open>The loop of \<open>parse\<close> over the entries at indentation zero, then \<open>parse\<close> and \<open>decode\<close>.\<close>

fun parseRootLoop ::
  "nat \<Rightarrow> (string \<Rightarrow> 'n option) \<Rightarrow> ParserState \<Rightarrow> 'n JsonObject \<Rightarrow> error + ('n JsonObject \<times> ParserState)" where
  "parseRootLoop 0 toNumber st result = Inl OutOfFuel"
| "parseRootLoop (Suc n) toNumber st result =
     (case current st of
        None \<Rightarrow> Inr (result, st)
      | Some token \<Rightarrow>
          if tokenType token = EOF then Inr (result, st)
          else if tokenIndent token \<noteq> 0 then Inr (result, st)
          else if tokenType token = ARRAY_HEADER
                  \<and> (case Option.bind (arrayInfo token) arrayKey of Some k \<Rightarrow> k \<noteq> [] | None \<Rightarrow> False)
          then bindE (parseArray n toNumber st)
                 (\<lambda>(arr, st1).
                    parseRootLoop n toNumber st1
                      (setProp result (case Option.bind (arrayInfo token) arrayKey of Some k \<Rightarrow> k | None \<Rightarrow> [])
                         (JArray arr)))
          else if tokenType token = KEY
          then (let key = tokenValue token; st1 = advance st
                in if map_option tokenType (current st1) = Some COLON
                   then bindE (parseAfterColon n toNumber (tokenIndent token = 0) token (advance st1))
                          (\<lambda>(v, st2).
                             parseRootLoop n toNumber st2
                               (case v of Some x \<Rightarrow> setProp result key x | None \<Rightarrow> result))
                   else parseRootLoop n toNumber st1 result)
          else parseRootLoop n toNumber (advance st) result)"

definition parse :: "nat \<Rightarrow> (string \<Rightarrow> 'n option) \<Rightarrow> Token list \<Rightarrow> error + 'n JsonValue" where
  "parse fuel toNumber ts =
     (let st = \<lparr>tokens = ts, position = 0\<rparr>
      in case current st of
           None \<Rightarrow> Inr (Prim JNull)
         | Some firstToken \<Rightarrow>
             if tokenType firstToken = EOF then Inr (Prim JNull)
             else if tokenType firstToken = VALUE
             then bindE (parsePrimitive toNumber (tokenValue firstToken)) (\<lambda>p. Inr (Prim p))
             else if tokenType firstToken = ARRAY_HEADER
                     \<and> (case Option.bind (arrayInfo firstToken) arrayKey of Some k \<Rightarrow> k = [] | None \<Rightarrow> True)
             then bindE (parseArray fuel toNumber st) (\<lambda>(arr, st1). Inr (JArray arr))
             else bindE (parseRootLoop fuel toNumber st emptyObject)
                    (\<lambda>(result, st1). if fst result = [] then Inr (Prim JNull) else Inr (JObject result)))"

definition decode :: "nat \<Rightarrow> (string \<Rightarrow> 'n option) \<Rightarrow> string \<Rightarrow> DecodeOptions option \<Rightarrow> error + 'n JsonValue" where
  "decode fuel toNumber input options =
     (if input = [] \<or> trim input = [] then Inr (Prim JNull)
      else bindE (scan (scannerOptions options) input) (\<lambda>ts. parse fuel toNumber ts))"

subsection \<open>The runtime's numbers\<close>

text \<open>
  \<open>Number(text)\<close> of the host on a text of the strict numeric shape, followed by the
  parser's test that the result is finite. The text denotes the decimal
  \<open>mantissa * 10 ^ e10\<close>; its nearest double is finite exactly when the magnitude is
  below \<open>2 ^ 1024 - 2 ^ 970\<close>, halfway between the largest double and \<open>2 ^ 1024\<close>. The
  model keeps the exact decimal value where the host rounds it to a double.
\<close>

definition decimalNumber :: "string \<Rightarrow> rat option" where
  "decimalNumber s =
     (let negative = startsWith s ''-'';
          r0 = optChar (\<lambda>c. c = CHR ''-'') s;
          ip = takeWhile isDigit r0;
          r1 = dropWhile isDigit r0;
          fp = (case r1 of [] \<Rightarrow> [] | c # r \<Rightarrow> if c = CHR ''.'' then takeWhile isDigit r else []);
          r2 = (case r1 of [] \<Rightarrow> [] | c # r \<Rightarrow> if c = CHR ''.'' then dropWhile isDigit r else r1);
          ex = (case r2 of
                  [] \<Rightarrow> 0
                | _ # r \<Rightarrow> if startsWith r ''-'' then - int (parseInt (tl r))
                           else int (parseInt (optChar (\<lambda>c. c = CHR ''+'') r)));
          mantissa = int (parseInt (ip @ fp));
          e10 = ex - int (length fp);
          magnitude = (if 0 \<le> e10 then of_int (mantissa * 10 ^ nat e10)
                       else of_int mantissa / of_int (10 ^ nat (- e10)))
      in if magnitude < 2 ^ 1024 - 2 ^ 970 then Some (if negative then - magnitude else magnitude)
         else None)"

subsection \<open>Lines of the output\<close>

text \<open>A line as the encoder should write it: not empty, no line feed inside, no space at its end.\<close>

definition cleanLine :: "string \<Rightarrow> bool" where
  "cleanLine l = (l \<noteq> [] \<and> LF \<notin> set l \<and> last l \<noteq> SPACE)"

text \<open>A writer whose lines are all clean, and whose indentation is spaces only.\<close>

definition cleanWriter :: "LineWriter \<Rightarrow> bool" where
  "cleanWriter w = (list_all cleanLine (lines w) \<and> list_all (\<lambda>c. c = SPACE) (indentationString w))"

subsection \<open>Characters of a number\<close>

text \<open>The characters that a text of the strict numeric shape is made of.\<close>

definition numberChar :: "char \<Rightarrow> bool" where
  "numberChar c = (c \<in> set ''-+.eE0123456789'')"

subsection \<open>Escaping, one character at a time\<close>

text \<open>What the five replacements of \<open>escapeString\<close> do to one character.\<close>

definition escapeChar :: "char \<Rightarrow> string" where
  "escapeChar c =
     (if c = BACKSLASH then [BACKSLASH, BACKSLASH]
      else if c = DOUBLE_QUOTE then [BACKSLASH, DOUBLE_QUOTE]
      else if c = LF then [BACKSLASH, CHR ''n'']
      else if c = CR then [BACKSLASH, CHR ''r'']
      else if c = TAB then [BACKSLASH, CHR ''t'']
      else [c])"

section \<open>Properties of the encoder\<close>

text \<open>
  Claim C6. With default options, \<open>encode({items:[{id:1,qty:5},{id:2,qty:3}]})\<close> is exactly
  the tabular form \<open>items[2]{id,qty}:\<close>, then the rows \<open>1,5\<close> and \<open>2,3\<close> one level
  deeper, in the key order of the first element.
\<close>

theorem encode_tabular_records_scenario:
  "encode intRuntime
     (HObject [(''items'', HArray [HObject [(''id'', HNumber 1), (''qty'', HNumber 5)],
                                   HObject [(''id'', HNumber 2), (''qty'', HNumber 3)]])])
     None
   = Inr (''items[2]{id,qty}:'' @ [LF] @ ''  1,5'' @ [LF] @ ''  2,3'')"
  by code_simp

text \<open>
  Claim C9. For \<open>{items:[1,[{a:1}]]}\<close> the list header declares two elements, but only one
  list-item line is written: \<open>encodeListItemValue\<close> writes nothing for an element that is
  an array with a non-primitive element.
\<close>

theorem encode_list_header_overcounts:
  "encode intRuntime (HObject [(''items'', HArray [HNumber 1, HArray [HObject [(''a'', HNumber 1)]]])]) None
     = Inr (''items[2]:'' @ [LF] @ ''  - 1'')
   \<and> bindE (encode intRuntime
               (HObject [(''items'', HArray [HNumber 1, HArray [HObject [(''a'', HNumber 1)]]])]) None)
        (\<lambda>text. Inr (length (filter (\<lambda>l. startsWith (trim l) ''- '') (splitLines text)))) = Inr 1
   \<and> encodeListItemValue rt (JArray [JObject ([(''a'', Prim (JNumber n))], p)]) w depth opts = Inr w"
proof -
  have a: "encode intRuntime (HObject [(''items'', HArray [HNumber 1, HArray [HObject [(''a'', HNumber 1)]]])]) None
     = Inr (''items[2]:'' @ [LF] @ ''  - 1'')"
    by code_simp
  have b: "length (filter (\<lambda>l. startsWith (trim l) ''- '') (splitLines (''items[2]:'' @ [LF] @ ''  - 1''))) = 1"
    by code_simp
  have c: "encodeListItemValue rt (JArray [JObject ([(''a'', Prim (JNumber n))], p)]) w depth opts = Inr w"
    by (simp add: isArrayOfPrimitives_def every_def isJsonPrimitive_def isHole_def)
  show ?thesis
    unfolding a using b c by (simp add: bindE_def)
qed

section \<open>Evaluation of the decoder\<close>

lemma bindE_weak_cong [cong]: "m = m' \<Longrightarrow> bindE m f = bindE m' f"
  by simp

lemma bindE_Inl [simp]: "bindE (Inl e) f = Inl e"
  by (simp add: bindE_def)

lemma bindE_Inr [simp]: "bindE (Inr x) f = f x"
  by (simp add: bindE_def)

lemma fuel_numeral:
  "parseObject (numeral k) = parseObject (Suc (pred_numeral k))"
  "parseAfterColon (numeral k) = parseAfterColon (Suc (pred_numeral k))"
  "parseArray (numeral k) = parseArray (Suc (pred_numeral k))"
  "parseListItems (numeral k) = parseListItems (Suc (pred_numeral k))"
  "parseListItemObject (numeral k) = parseListItemObject (Suc (pred_numeral k))"
  "additionalProperties (numeral k) = additionalProperties (Suc (pred_numeral k))"
  "parseRootLoop (numeral k) = parseRootLoop (Suc (pred_numeral k))"
  by (simp_all only: numeral_eq_Suc)

lemmas parser_unfold =
  trans [OF fun_cong [OF fun_cong [OF fun_cong [OF fun_cong [OF fuel_numeral(1)]]]] parseObject.simps(2)]
  trans [OF fun_cong [OF fun_cong [OF fun_cong [OF fun_cong [OF fuel_numeral(2)]]]] parseAfterColon.simps(2)]
  trans [OF fun_cong [OF fun_cong [OF fuel_numeral(3)]] parseArray.simps(2)]
  trans [OF fun_cong [OF fun_cong [OF fun_cong [OF fun_cong [OF fuel_numeral(4)]]]] parseListItems.simps(2)]
  trans [OF fun_cong [OF fun_cong [OF fun_cong [OF fun_cong [OF fun_cong [OF fuel_numeral(5)]]]]] parseListItemObject.simps(2)]
  trans [OF fun_cong [OF fun_cong [OF fun_cong [OF fun_cong [OF fuel_numeral(6)]]]] additionalProperties.simps(2)]
  trans [OF fun_cong [OF fun_cong [OF fun_cong [OF fuel_numeral(7)]]] parseRootLoop.simps(2)]

lemmas parser_defs =
  parse_def current_def advance_def mkToken_def parsePrimitive_def parsePrimitives_def Let_def
  trim_def isWhiteSpace_def strictNumberShape_def integerPart_def optChar_def startsWith_def
  endsWith_def substring_def splitByDelimiter_def setProp_def emptyObject_def hasOwn_def

section \<open>Indentation of a line\<close>

lemma getIndentLoop_lenient:
  "\<not> strict opts \<Longrightarrow>
   getIndentLoop opts n line info =
     Inr \<lparr>indentCount = indentCount info
            + length (filter (\<lambda>c. c = SPACE) (takeWhile (\<lambda>c. c = SPACE \<or> c = TAB) line)),
          indentHadTab = (indentHadTab info \<or> TAB \<in> set (takeWhile (\<lambda>c. c = SPACE \<or> c = TAB) line))\<rparr>"
  by (induction line arbitrary: info) auto

lemma getIndentLoop_strict_tab:
  "strict opts \<Longrightarrow> TAB \<in> set (takeWhile (\<lambda>c. c = SPACE \<or> c = TAB) line) \<Longrightarrow>
   getIndentLoop opts n line info = Inl (TabInIndentation n)"
  by (induction line arbitrary: info) (auto split: if_splits)

text \<open>
  Claim C3, as amended. Without \<open>strict\<close>, \<open>getIndent\<close> counts the spaces of the leading
  run of spaces and tabs: a tab adds no column and only sets \<open>hadTabIndent\<close>. With
  \<open>strict\<close>, a tab in that run is the error "Tab character found in indentation".
\<close>

theorem getIndent_tab_columns:
  "(\<not> strict opts \<longrightarrow>
      getIndent opts line n =
        Inr \<lparr>indentCount = length (filter (\<lambda>c. c = SPACE) (takeWhile (\<lambda>c. c = SPACE \<or> c = TAB) line)),
             indentHadTab = (TAB \<in> set (takeWhile (\<lambda>c. c = SPACE \<or> c = TAB) line))\<rparr>)
   \<and> (strict opts \<and> TAB \<in> set (takeWhile (\<lambda>c. c = SPACE \<or> c = TAB) line) \<longrightarrow>
        getIndent opts line n = Inl (TabInIndentation n))"
  by (simp add: getIndent_def getIndentLoop_lenient getIndentLoop_strict_tab)

text \<open>Witness for C3: a line that starts with a tab and a space, in both modes.\<close>

theorem getIndent_tab_columns_witness:
  "getIndent \<lparr>strict = False, indentSize = 2\<rparr> ([TAB, SPACE] @ ''id: x'') 1
     = Inr \<lparr>indentCount = 1, indentHadTab = True\<rparr>
   \<and> getIndent \<lparr>strict = True, indentSize = 2\<rparr> ([TAB, SPACE] @ ''id: x'') 1 = Inl (TabInIndentation 1)"
  using getIndent_tab_columns [of "\<lparr>strict = False, indentSize = 2\<rparr>" "[TAB, SPACE] @ ''id: x''" 1]
        getIndent_tab_columns [of "\<lparr>strict = True, indentSize = 2\<rparr>" "[TAB, SPACE] @ ''id: x''" 1]
  by simp

text \<open>
  Counterexample to C3 as stated: in lenient mode the line \<open>\tid: x\<close> has indent count 0,
  not 4.
\<close>

theorem tab_indent_counterexample:
  "getIndent (scannerOptions (Some \<lparr>strictOption = Some False, decodeIndentOption = None\<rparr>))
     ([TAB] @ ''id: x'') 1 = Inr \<lparr>indentCount = 0, indentHadTab = True\<rparr>
   \<and> getIndent (scannerOptions (Some \<lparr>strictOption = Some False, decodeIndentOption = None\<rparr>))
     ([TAB] @ ''id: x'') 1 \<noteq> Inr \<lparr>indentCount = 4, indentHadTab = True\<rparr>"
  by (simp add: getIndent_def scannerOptions_def)

section \<open>The default of the strict option\<close>

lemma decode_nonblank:
  "trim input \<noteq> [] \<Longrightarrow>
   decode fuel toNumber input options = bindE (scan (scannerOptions options) input) (parse fuel toNumber)"
  by (auto simp: decode_def trim_def)

lemma trim_nonblank: "\<exists>c\<in>set x. \<not> isWhiteSpace c \<Longrightarrow> trim x \<noteq> []"
proof -
  assume a: "\<exists>c\<in>set x. \<not> isWhiteSpace c"
  then have "\<exists>c\<in>set (rev (dropWhile isWhiteSpace x)). \<not> isWhiteSpace c"
    by (metis dropWhile_eq_Nil_conv hd_dropWhile hd_in_set set_rev)
  then have "dropWhile isWhiteSpace (rev (dropWhile isWhiteSpace x)) \<noteq> []"
    by (simp add: dropWhile_eq_Nil_conv)
  then show ?thesis
    by (simp add: trim_def)
qed

lemma splitLines_not_Nil: "splitLines s \<noteq> []"
  by (induction s) (auto split: list.splits)

lemma splitLines_first:
  "splitLines s = a # ls \<Longrightarrow> (s = a \<and> ls = []) \<or> (\<exists>b. s = a @ LF # b)"
proof (induction s arbitrary: a ls)
  case Nil
  then show ?case by simp
next
  case (Cons c cs)
  show ?case
  proof (cases "c = LF")
    case True
    then show ?thesis using Cons.prems by auto
  next
    case False
    obtain a' ls' where sp: "splitLines cs = a' # ls'"
      using splitLines_not_Nil [of cs] by (cases "splitLines cs") auto
    then have a: "a = c # a'" and ls: "ls = ls'"
      using Cons.prems False by simp_all
    show ?thesis
      using Cons.IH [OF sp] a ls by auto
  qed
qed

lemma tab_first_line_rejected:
  assumes "splitLines input = (TAB # l) # ls" and "\<exists>c\<in>set l. \<not> isWhiteSpace c"
  shows "decode fuel toNumber input None = Inl (TabInIndentation 1)"
proof -
  have line: "trim (TAB # l) \<noteq> []"
    using assms(2) by (intro trim_nonblank) auto
  have "set l \<subseteq> set input"
    using splitLines_first [OF assms(1)] by auto
  then have "trim input \<noteq> []"
    using assms(2) by (intro trim_nonblank) auto
  then have d: "decode fuel toNumber input None
      = bindE (scan (scannerOptions None) input) (parse fuel toNumber)"
    by (rule decode_nonblank)
  have "getIndent (scannerOptions None) (TAB # l) 1 = Inl (TabInIndentation 1)"
    by (simp add: getIndent_def scannerOptions_def)
  then have "scan (scannerOptions None) input = Inl (TabInIndentation 1)"
    using line by (simp add: scan_def assms(1))
  then show ?thesis
    by (simp add: d)
qed

text \<open>
  Claim C1, as amended. \<open>strict\<close> defaults to true: \<open>decode\<close> without options, or with
  options that omit \<open>strict\<close>, is \<open>decode\<close> with \<open>{strict: true}\<close>. So when the options
  are omitted, an input whose first line starts with a tab and is not blank is rejected.
\<close>

theorem strict_defaults_to_true:
  "decode fuel toNumber input None
     = decode fuel toNumber input (Some \<lparr>strictOption = Some True, decodeIndentOption = None\<rparr>)
   \<and> decode fuel toNumber input (Some \<lparr>strictOption = None, decodeIndentOption = i\<rparr>)
     = decode fuel toNumber input (Some \<lparr>strictOption = Some True, decodeIndentOption = i\<rparr>)
   \<and> (splitLines input = (TAB # l) # ls \<and> (\<exists>c\<in>set l. \<not> isWhiteSpace c)
        \<longrightarrow> decode fuel toNumber input None = Inl (TabInIndentation 1))"
  using tab_first_line_rejected [of input l ls fuel toNumber]
  by (simp add: decode_def scannerOptions_def)

text \<open>Witness for C1: the text \<open>\tid: x\<close>, with fuel 10.\<close>

theorem strict_defaults_to_true_witness:
  "decode 10 decimalNumber ([TAB] @ ''id: x'') None
     = decode 10 decimalNumber ([TAB] @ ''id: x'')
         (Some \<lparr>strictOption = Some True, decodeIndentOption = None\<rparr>)
   \<and> decode 10 decimalNumber ([TAB] @ ''id: x'') None = Inl (TabInIndentation 1)"
proof -
  have s: "splitLines ([TAB] @ ''id: x'') = (TAB # ''id: x'') # []"
    by code_simp
  have w: "\<exists>c\<in>set ''id: x''. \<not> isWhiteSpace c"
    by (simp add: isWhiteSpace_def)
  note t = strict_defaults_to_true [of 10 decimalNumber "[TAB] @ ''id: x''" None "''id: x''" "[]"]
  show ?thesis
    by (rule conjI [OF conjunct1 [OF t] mp [OF conjunct2 [OF conjunct2 [OF t]] conjI [OF s w]]])
qed

lemma scan_tab_line_default:
  "scan (scannerOptions None) ([TAB] @ ''id: x'') = Inl (TabInIndentation 1)"
  by code_simp

lemma scan_tab_line_lenient:
  "scan (scannerOptions (Some \<lparr>strictOption = Some False, decodeIndentOption = None\<rparr>)) ([TAB] @ ''id: x'')
     = Inr [mkToken KEY ''id'' 0 0 None True, mkToken COLON '':'' 0 0 None True,
            mkToken VALUE ''x'' 0 0 None True, mkToken EOF [] 0 1 None False]"
  by code_simp

lemma nonblank_tab_line: "trim ([TAB] @ ''id: x'') \<noteq> []"
  by code_simp

text \<open>
  Counterexample to C1 as stated: the line \<open>\tid: x\<close> is rejected when the options are
  omitted and accepted with \<open>{strict: false}\<close>.
\<close>

theorem strict_default_counterexample:
  "decode 10 decimalNumber ([TAB] @ ''id: x'') None = Inl (TabInIndentation 1)
   \<and> decode 10 decimalNumber ([TAB] @ ''id: x'')
        (Some \<lparr>strictOption = Some False, decodeIndentOption = None\<rparr>)
      = Inr (JObject ([(''id'', Prim (JString ''x''))], ObjectPrototype))"
proof -
  have a: "decode 10 decimalNumber ([TAB] @ ''id: x'') None = Inl (TabInIndentation 1)"
    by (simp only: decode_nonblank [OF nonblank_tab_line] scan_tab_line_default bindE_Inl)
  have b: "parse 10 decimalNumber
             [mkToken KEY ''id'' 0 0 None True, mkToken COLON '':'' 0 0 None True,
              mkToken VALUE ''x'' 0 0 None True, mkToken EOF [] 0 1 None False]
           = Inr (JObject ([(''id'', Prim (JString ''x''))], ObjectPrototype))"
    by (simp add: parser_unfold parser_defs)
  have c: "decode 10 decimalNumber ([TAB] @ ''id: x'')
        (Some \<lparr>strictOption = Some False, decodeIndentOption = None\<rparr>)
      = Inr (JObject ([(''id'', Prim (JString ''x''))], ObjectPrototype))"
    by (simp only: decode_nonblank [OF nonblank_tab_line] scan_tab_line_lenient bindE_Inr b)
  show ?thesis using a c by simp
qed

section \<open>Count mismatches\<close>

lemma scan_items_line:
  "scan (scannerOptions (Some \<lparr>strictOption = Some False, decodeIndentOption = None\<rparr>)) ''items[2]: a,b,c''
     = Inr [mkToken ARRAY_HEADER ''items[2]: a,b,c'' 0 0
              (Some \<lparr>arrayKey = Some ''items'', arrayLength = 2, arrayFields = None,
                      arrayDelimiter = CHR '','', inlineValues = Some ''a,b,c''\<rparr>) False,
            mkToken EOF [] 0 1 None False]"
  by code_simp

lemma nonblank_items_line: "trim ''items[2]: a,b,c'' \<noteq> []"
  by code_simp

text \<open>
  Counterexample to C2 as stated: \<open>decode('items[2]: a,b,c', {strict: false})\<close> raises
  "Array length mismatch: expected 2 elements, but found 3".
\<close>

theorem lenient_count_mismatch_counterexample:
  "decode 10 decimalNumber ''items[2]: a,b,c'' (Some \<lparr>strictOption = Some False, decodeIndentOption = None\<rparr>)
     = Inl (ArrayLengthMismatch 2 3)"
proof -
  have b: "parse 10 decimalNumber
             [mkToken ARRAY_HEADER ''items[2]: a,b,c'' 0 0
                (Some \<lparr>arrayKey = Some ''items'', arrayLength = 2, arrayFields = None,
                        arrayDelimiter = CHR '','', inlineValues = Some ''a,b,c''\<rparr>) False,
              mkToken EOF [] 0 1 None False]
           = Inl (ArrayLengthMismatch 2 3)"
    by (simp add: parser_unfold parser_defs)
  show ?thesis
    by (simp only: decode_nonblank [OF nonblank_items_line] scan_items_line bindE_Inr b)
qed

text \<open>
  Claim C2, as amended. The parser takes no options: at an array header with a declared
  length other than zero and inline values whose number differs from it, \<open>parseArray\<close>
  raises the length mismatch, whatever \<open>strict\<close> was.
\<close>

theorem parseArray_inline_count_mismatch:
  assumes "current st = Some headerToken"
    and "arrayInfo headerToken = Some info"
    and "arrayLength info \<noteq> 0"
    and "inlineValues info = Some v"
    and "v \<noteq> []"
    and "length (splitByDelimiter v (arrayDelimiter info)) \<noteq> arrayLength info"
  shows "parseArray (Suc n) toNumber st
           = Inl (ArrayLengthMismatch (arrayLength info) (length (splitByDelimiter v (arrayDelimiter info))))"
  using assms by (simp add: Let_def)

text \<open>Witness for C2: the header token of \<open>items[2]: a,b,c\<close>.\<close>

theorem parseArray_inline_count_mismatch_witness:
  "parseArray (Suc 0) decimalNumber
     \<lparr>tokens = [mkToken ARRAY_HEADER ''items[2]: a,b,c'' 0 0
                   (Some \<lparr>arrayKey = Some ''items'', arrayLength = 2, arrayFields = None,
                           arrayDelimiter = CHR '','', inlineValues = Some ''a,b,c''\<rparr>) False,
                 mkToken EOF [] 0 1 None False],
       position = 0\<rparr>
   = Inl (ArrayLengthMismatch 2 3)"
proof -
  let ?info = "\<lparr>arrayKey = Some ''items'', arrayLength = 2, arrayFields = None,
                  arrayDelimiter = CHR '','', inlineValues = Some ''a,b,c''\<rparr>"
  let ?st = "\<lparr>tokens = [mkToken ARRAY_HEADER ''items[2]: a,b,c'' 0 0 (Some ?info) False,
                         mkToken EOF [] 0 1 None False],
               position = 0\<rparr>"
  have s: "splitByDelimiter ''a,b,c'' (CHR '','') = [''a'', ''b'', ''c'']"
    by code_simp
  have "parseArray (Suc 0) decimalNumber ?st
          = Inl (ArrayLengthMismatch (arrayLength ?info)
                   (length (splitByDelimiter ''a,b,c'' (arrayDelimiter ?info))))"
    by (rule parseArray_inline_count_mismatch [where headerToken =
          "mkToken ARRAY_HEADER ''items[2]: a,b,c'' 0 0 (Some ?info) False"])
       (simp_all add: current_def mkToken_def s)
  then show ?thesis by (simp add: s)
qed

section \<open>The decoder and the empty object\<close>

lemma parse_not_empty_object: "parse fuel toNumber ts \<noteq> Inr (JObject ([], p))"
  by (auto simp: parse_def bindE_def Let_def split: option.splits sum.splits if_splits prod.splits)

lemma encode_empty_object: "encode rt (HObject []) eopts = Inr []"
  by (simp add: encode_def encodeValue_def emptyObject_def writerToString_def newLineWriter_def)

text \<open>
  Claim C10. \<open>decode\<close> never returns an object without own keys. When the first token is
  neither a plain value nor an array header without key and the root loop binds no key,
  \<open>parse\<close> returns null; so does \<open>decode\<close> on the text that \<open>encode\<close> gives for \<open>{}\<close>,
  which is the empty string.
\<close>

theorem decode_never_empty_object:
  "decode fuel toNumber input options \<noteq> Inr (JObject ([], p))
   \<and> (parseRootLoop fuel toNumber \<lparr>tokens = t # ts, position = 0\<rparr> emptyObject = Inr (([], q), st)
        \<and> tokenType t \<noteq> VALUE
        \<and> (tokenType t = ARRAY_HEADER \<longrightarrow> Option.bind (arrayInfo t) arrayKey \<notin> {None, Some []})
      \<longrightarrow> parse fuel toNumber (t # ts) = Inr (Prim JNull))
   \<and> encode rt (HObject []) eopts = Inr []
   \<and> bindE (encode rt (HObject []) eopts) (\<lambda>text. decode fuel toNumber text options) = Inr (Prim JNull)"
proof -
  have a: "decode fuel toNumber input options \<noteq> Inr (JObject ([], p))"
    using parse_not_empty_object [of fuel toNumber]
    by (auto simp: decode_def bindE_def split: sum.splits)
  have b: "parseRootLoop fuel toNumber \<lparr>tokens = t # ts, position = 0\<rparr> emptyObject = Inr (([], q), st)
        \<and> tokenType t \<noteq> VALUE
        \<and> (tokenType t = ARRAY_HEADER \<longrightarrow> Option.bind (arrayInfo t) arrayKey \<notin> {None, Some []})
      \<longrightarrow> parse fuel toNumber (t # ts) = Inr (Prim JNull)"
    by (auto simp: parse_def current_def Let_def split: option.splits)
  have c: "bindE (encode rt (HObject []) eopts) (\<lambda>text. decode fuel toNumber text options) = Inr (Prim JNull)"
    by (simp add: encode_empty_object decode_def)
  show ?thesis using a b c encode_empty_object [of rt eopts] by blast
qed

lemma scan_indented_key:
  "scan (scannerOptions None) ''  a: b''
     = Inr [mkToken KEY ''a'' 2 0 None False, mkToken COLON '':'' 2 0 None False,
            mkToken VALUE ''b'' 2 0 None False, mkToken EOF [] 0 1 None False]"
  by code_simp

text \<open>
  Witness for C10: the line \<open>  a: b\<close> starts with a key that is not at indentation zero,
  so the root loop binds nothing and the result is null.
\<close>

theorem decode_never_empty_object_witness:
  "decode 10 decimalNumber ''  a: b'' None \<noteq> Inr (JObject ([], ObjectPrototype))
   \<and> parse 10 decimalNumber
       [mkToken KEY ''a'' 2 0 None False, mkToken COLON '':'' 2 0 None False,
        mkToken VALUE ''b'' 2 0 None False, mkToken EOF [] 0 1 None False] = Inr (Prim JNull)
   \<and> bindE (encode intRuntime (HObject []) None) (\<lambda>text. decode 10 decimalNumber text None)
       = Inr (Prim JNull)"
proof -
  let ?t = "mkToken KEY ''a'' 2 0 None False"
  let ?ts = "[mkToken COLON '':'' 2 0 None False, mkToken VALUE ''b'' 2 0 None False,
              mkToken EOF [] 0 1 None False]"
  have r: "parseRootLoop 10 decimalNumber \<lparr>tokens = ?t # ?ts, position = 0\<rparr> emptyObject
             = Inr (([], ObjectPrototype), \<lparr>tokens = ?t # ?ts, position = 0\<rparr>)"
    by (simp add: parser_unfold current_def mkToken_def emptyObject_def)
  have t: "tokenType ?t \<noteq> VALUE \<and> tokenType ?t \<noteq> ARRAY_HEADER"
    by (simp add: mkToken_def)
  show ?thesis
    using decode_never_empty_object [of 10 decimalNumber "''  a: b''" None ObjectPrototype ?t ?ts
            ObjectPrototype "\<lparr>tokens = ?t # ?ts, position = 0\<rparr>" intRuntime None] r t
    by blast
qed

section \<open>Escaping and unescaping\<close>

lemma replaceAll_Nil [simp]: "replaceAll c rep [] = []"
  by (simp add: replaceAll_def)

lemma replaceAll_Cons [simp]:
  "replaceAll c rep (x # xs) = (if x = c then rep else [x]) @ replaceAll c rep xs"
  by (simp add: replaceAll_def)

lemma replaceAll_append [simp]:
  "replaceAll c rep (xs @ ys) = replaceAll c rep xs @ replaceAll c rep ys"
  by (simp add: replaceAll_def)

lemma escapeString_Nil [simp]: "escapeString [] = []"
  by (simp add: escapeString_def)

lemma escapeString_Cons [simp]: "escapeString (c # cs) = escapeChar c @ escapeString cs"
  by (simp add: escapeString_def escapeChar_def)

lemma unescapeString_plain:
  "c \<noteq> BACKSLASH \<Longrightarrow> unescapeString (c # cs) = bindE (unescapeString cs) (\<lambda>r. Inr (c # r))"
  by (cases cs) simp_all

lemma unescape_escape: "unescapeString (escapeString s) = Inr s"
  by (induction s) (auto simp: escapeChar_def unescapeString_plain)

lemma encode_multiline:
  "encode rt (HObject [(''m'', HString (''Line 1'' @ [LF] @ ''Line 2''))]) None
     = Inr (''m: '' @ [DOUBLE_QUOTE] @ ''Line 1'' @ [BACKSLASH] @ ''nLine 2'' @ [DOUBLE_QUOTE])"
  by code_simp

lemma scan_multiline:
  "scan (scannerOptions None) (''m: '' @ [DOUBLE_QUOTE] @ ''Line 1'' @ [BACKSLASH] @ ''nLine 2'' @ [DOUBLE_QUOTE])
     = Inr [mkToken KEY ''m'' 0 0 None False, mkToken COLON '':'' 0 0 None False,
            mkToken VALUE ([DOUBLE_QUOTE] @ ''Line 1'' @ [BACKSLASH] @ ''nLine 2'' @ [DOUBLE_QUOTE]) 0 0 None False,
            mkToken EOF [] 0 1 None False]"
  by code_simp

lemma nonblank_multiline:
  "trim (''m: '' @ [DOUBLE_QUOTE] @ ''Line 1'' @ [BACKSLASH] @ ''nLine 2'' @ [DOUBLE_QUOTE]) \<noteq> []"
  by code_simp

lemma parse_multiline:
  "parse 10 toNumber
     [mkToken KEY ''m'' 0 0 None False, mkToken COLON '':'' 0 0 None False,
      mkToken VALUE ([DOUBLE_QUOTE] @ ''Line 1'' @ [BACKSLASH] @ ''nLine 2'' @ [DOUBLE_QUOTE]) 0 0 None False,
      mkToken EOF [] 0 1 None False]
   = Inr (JObject ([(''m'', Prim (JString (''Line 1'' @ [LF] @ ''Line 2'')))], ObjectPrototype))"
  by (simp add: parser_unfold parser_defs)

lemma normalize_multiline:
  "normalizeValue rt (HObject [(''m'', HString (''Line 1'' @ [LF] @ ''Line 2''))])
     = Inr (JObject ([(''m'', Prim (JString (''Line 1'' @ [LF] @ ''Line 2'')))], ObjectPrototype))"
  by (simp add: setProp_def emptyObject_def hasOwn_def)

text \<open>
  Claim C8. Unescaping an escaped string gives the string back. With default options
  \<open>encode({m: "Line 1\nLine 2"})\<close> is the line \<open>m: "Line 1\\nLine 2"\<close>, and decoding that
  line returns the object.
\<close>

theorem escape_round_trip:
  "unescapeString (escapeString s) = Inr s
   \<and> encode rt (HObject [(''m'', HString (''Line 1'' @ [LF] @ ''Line 2''))]) None
       = Inr (''m: '' @ [DOUBLE_QUOTE] @ ''Line 1'' @ [BACKSLASH] @ ''nLine 2'' @ [DOUBLE_QUOTE])
   \<and> bindE (encode rt (HObject [(''m'', HString (''Line 1'' @ [LF] @ ''Line 2''))]) None)
        (\<lambda>text. decode 10 toNumber text None)
       = normalizeValue rt (HObject [(''m'', HString (''Line 1'' @ [LF] @ ''Line 2''))])
   \<and> normalizeValue rt (HObject [(''m'', HString (''Line 1'' @ [LF] @ ''Line 2''))])
       = Inr (JObject ([(''m'', Prim (JString (''Line 1'' @ [LF] @ ''Line 2'')))], ObjectPrototype))"
proof -
  have d: "bindE (encode rt (HObject [(''m'', HString (''Line 1'' @ [LF] @ ''Line 2''))]) None)
        (\<lambda>text. decode 10 toNumber text None)
       = Inr (JObject ([(''m'', Prim (JString (''Line 1'' @ [LF] @ ''Line 2'')))], ObjectPrototype))"
    by (simp only: encode_multiline decode_nonblank [OF nonblank_multiline] scan_multiline bindE_Inr
          parse_multiline)
  show ?thesis
    using unescape_escape [of s] encode_multiline [of rt] d normalize_multiline [of rt] by simp
qed

section \<open>The quoting law\<close>



subsection \<open>Normalising strings\<close>








subsection \<open>Encoding strings\<close>







subsection \<open>Rows of strings\<close>













subsection \<open>The branches of the encoder on strings\<close>
















lemmas encode_defs = encode_def encodeValue_def newLineWriter_def writerToString_def push_def pushListItem_def













section \<open>Numbers and strings that look like numbers\<close>

lemma dropWhile_none: "\<forall>c\<in>set s. \<not> P c \<Longrightarrow> dropWhile P s = s"
  by (cases s) auto

lemma trim_no_whitespace: "\<forall>c\<in>set s. \<not> isWhiteSpace c \<Longrightarrow> trim s = s"
  by (simp add: trim_def dropWhile_none)

lemma digit_numberChar: "isDigit c \<Longrightarrow> numberChar c"
  by (auto simp: isDigit_def numberChar_def)

lemma numberChar_not_whitespace: "numberChar c \<Longrightarrow> \<not> isWhiteSpace c"
  by (auto simp: numberChar_def isWhiteSpace_def)

lemma numberChar_plain:
  "numberChar c \<Longrightarrow> c \<noteq> BACKSLASH \<and> c \<noteq> DOUBLE_QUOTE \<and> c \<noteq> LF \<and> c \<noteq> CR \<and> c \<noteq> TAB
     \<and> c \<noteq> CHR ''n'' \<and> c \<noteq> CHR ''t'' \<and> c \<noteq> CHR ''f''"
  by (auto simp: numberChar_def)

lemma digit_not_special:
  "isDigit c \<Longrightarrow> c \<noteq> CHR ''.'' \<and> c \<noteq> CHR ''e'' \<and> c \<noteq> CHR ''E'' \<and> c \<noteq> CHR ''-''"
  by (auto simp: isDigit_def)

lemma isDigit_zero: "isDigit (CHR ''0'')"
  by (simp add: isDigit_def)

lemma nonzero_digit: "c \<in> set ''123456789'' \<Longrightarrow> isDigit c"
  by (auto simp: isDigit_def)

lemma escapeString_plain: "\<forall>c\<in>set s. escapeChar c = [c] \<Longrightarrow> escapeString s = s"
  by (induction s) auto

lemma leadingZero_digits: "leadingZeroShape t \<Longrightarrow> t \<noteq> [] \<and> (\<forall>c\<in>set t. isDigit c)"
  using isDigit_zero by (cases t) (auto simp: leadingZeroShape_def list_all_iff)

lemma leadingZero_not_strict: "leadingZeroShape t \<Longrightarrow> \<not> strictNumberShape t"
proof -
  assume z: "leadingZeroShape t"
  then obtain c cs where t: "t = CHR ''0'' # c # cs" and c: "isDigit c"
    by (cases t; cases "tl t") (auto simp: leadingZeroShape_def)
  show ?thesis
    using digit_not_special [OF c]
    by (simp add: t strictNumberShape_def optChar_def integerPart_def optGroup_def fractionPart_def
          exponentPart_def)
qed

lemma leadingZero_parse: "leadingZeroShape t \<Longrightarrow> parsePrimitive toNumber t = Inr (JString t)"
proof -
  assume z: "leadingZeroShape t"
  have d: "t \<noteq> []" "\<forall>c\<in>set t. numberChar c"
    using leadingZero_digits [OF z] digit_numberChar by auto
  have tr: "trim t = t"
    using d numberChar_not_whitespace by (intro trim_no_whitespace) auto
  have "CHR ''n'' \<notin> set t" "CHR ''t'' \<notin> set t" "CHR ''f'' \<notin> set t" "DOUBLE_QUOTE \<notin> set t"
    using d(2) numberChar_plain by blast+
  then have lit: "t \<noteq> ''null''" "t \<noteq> ''true''" "t \<noteq> ''false''" and q: "\<not> startsWith t [DOUBLE_QUOTE]"
    using d(1) by (auto simp: startsWith_def neq_Nil_conv)
  show ?thesis
    using tr lit q leadingZero_not_strict [OF z] by (simp add: parsePrimitive_def)
qed

lemma leadingZero_quoted:
  "leadingZeroShape t \<Longrightarrow> encodeStringLiteral t d = [DOUBLE_QUOTE] @ t @ [DOUBLE_QUOTE]"
proof -
  assume z: "leadingZeroShape t"
  have "\<forall>c\<in>set t. numberChar c"
    using leadingZero_digits [OF z] digit_numberChar by auto
  then have "\<forall>c\<in>set t. escapeChar c = [c]"
    using numberChar_plain by (simp add: escapeChar_def)
  then have "escapeString t = t"
    by (rule escapeString_plain)
  moreover have "\<not> isSafeUnquoted t d"
    using z by (simp add: isSafeUnquoted_def isNumericLike_def)
  ultimately show ?thesis
    by (simp add: encodeStringLiteral_def)
qed

lemma unescapeString_no_backslash: "BACKSLASH \<notin> set s \<Longrightarrow> unescapeString s = Inr s"
  by (induction s) (auto simp: unescapeString_plain)

lemma parse_quoted_digits:
  assumes "\<forall>c\<in>set t. isDigit c"
  shows "parsePrimitive toNumber ([DOUBLE_QUOTE] @ t @ [DOUBLE_QUOTE]) = Inr (JString t)"
proof -
  let ?q = "[DOUBLE_QUOTE] @ t @ [DOUBLE_QUOTE]"
  have n: "\<forall>c\<in>set t. numberChar c"
    using assms digit_numberChar by auto
  have "\<not> isWhiteSpace DOUBLE_QUOTE"
    by (simp add: isWhiteSpace_def)
  then have ws: "\<forall>c\<in>set ?q. \<not> isWhiteSpace c"
    using n numberChar_not_whitespace by auto
  have tr: "trim ?q = ?q"
    by (rule trim_no_whitespace [OF ws])
  have "BACKSLASH \<notin> set t"
    using n numberChar_plain by blast
  then have u: "unescapeString t = Inr t"
    by (rule unescapeString_no_backslash)
  have sub: "substring ?q 1 (length ?q - 1) = t"
    by (simp add: substring_def)
  have shape: "\<not> strictNumberShape ?q"
    by (simp add: strictNumberShape_def optChar_def integerPart_def)
  have lit: "?q \<noteq> ''null''" "?q \<noteq> ''true''" "?q \<noteq> ''false''"
    by simp_all
  have se: "startsWith ?q [DOUBLE_QUOTE]" "endsWith ?q [DOUBLE_QUOTE]" "\<not> length ?q < 2"
    by (simp_all add: startsWith_def endsWith_def)
  show ?thesis
    unfolding parsePrimitive_def Let_def tr sub
    using shape u lit se by (simp only: if_False if_True option.case bindE_Inr simp_thms)
qed

text \<open>Every character of a text of the strict numeric shape is a sign, a digit, a dot or an \<open>e\<close>.\<close>

lemma takeWhile_digits: "\<forall>c\<in>set (takeWhile isDigit r). numberChar c"
  using digit_numberChar by (auto dest: set_takeWhileD)

lemma digits1_chars:
  "digits1 s = Some r \<Longrightarrow> \<exists>p. s = p @ r \<and> (\<forall>c\<in>set p. numberChar c)"
proof -
  assume a: "digits1 s = Some r"
  then obtain c r0 where s: "s = c # r0" and c: "isDigit c" and r: "r = dropWhile isDigit r0"
    by (cases s) (auto simp: digits1_def split: if_splits)
  have "s = (c # takeWhile isDigit r0) @ r"
    by (simp add: s r)
  moreover have "\<forall>x\<in>set (c # takeWhile isDigit r0). numberChar x"
    using digit_numberChar [OF c] takeWhile_digits [of r0] by simp
  ultimately show ?thesis by blast
qed

lemma integerPart_chars:
  "integerPart s = Some r \<Longrightarrow> \<exists>p. s = p @ r \<and> (\<forall>c\<in>set p. numberChar c)"
proof -
  assume a: "integerPart s = Some r"
  then obtain c r0 where s: "s = c # r0"
    by (cases s) (auto simp: integerPart_def)
  show ?thesis
  proof (cases "c = CHR ''0''")
    case True
    then have "s = [c] @ r" using a s by (simp add: integerPart_def)
    moreover have "\<forall>x\<in>set [c]. numberChar x"
      using True digit_numberChar [OF isDigit_zero] by simp
    ultimately show ?thesis by blast
  next
    case False
    then have c: "c \<in> set ''123456789''" and r: "r = dropWhile isDigit r0"
      using a s by (simp_all add: integerPart_def split: if_splits)
    have "s = (c # takeWhile isDigit r0) @ r"
      by (simp add: s r)
    moreover have "\<forall>x\<in>set (c # takeWhile isDigit r0). numberChar x"
      using digit_numberChar [OF nonzero_digit [OF c]] takeWhile_digits [of r0] by simp
    ultimately show ?thesis by blast
  qed
qed

lemma optChar_chars:
  "\<forall>c. P c \<longrightarrow> numberChar c \<Longrightarrow> \<exists>p. s = p @ optChar P s \<and> (\<forall>c\<in>set p. numberChar c)"
proof (cases s)
  case Nil
  then show ?thesis by (simp add: optChar_def)
next
  case (Cons c r)
  assume p: "\<forall>c. P c \<longrightarrow> numberChar c"
  show ?thesis
  proof (cases "P c")
    case True
    then have "s = [c] @ optChar P s" by (simp add: Cons optChar_def)
    moreover have "\<forall>x\<in>set [c]. numberChar x" using p True by simp
    ultimately show ?thesis by blast
  next
    case False
    then have "s = [] @ optChar P s" by (simp add: Cons optChar_def)
    then show ?thesis by (intro exI [of _ "[]"]) simp
  qed
qed

lemma fractionPart_chars:
  "fractionPart s = Some r \<Longrightarrow> \<exists>p. s = p @ r \<and> (\<forall>c\<in>set p. numberChar c)"
proof -
  assume a: "fractionPart s = Some r"
  then obtain r0 where s: "s = CHR ''.'' # r0" and d: "digits1 r0 = Some r"
    by (cases s) (auto simp: fractionPart_def split: if_splits)
  obtain p where p: "r0 = p @ r" "\<forall>c\<in>set p. numberChar c"
    using digits1_chars [OF d] by blast
  have "numberChar (CHR ''.'')"
    by (simp add: numberChar_def)
  then have "s = (CHR ''.'' # p) @ r \<and> (\<forall>c\<in>set (CHR ''.'' # p). numberChar c)"
    using s p by simp
  then show ?thesis by blast
qed

lemma exponentPart_chars:
  "exponentPart s = Some r \<Longrightarrow> \<exists>p. s = p @ r \<and> (\<forall>c\<in>set p. numberChar c)"
proof -
  let ?sign = "\<lambda>x. x = CHR ''+'' \<or> x = CHR ''-''"
  assume a: "exponentPart s = Some r"
  then obtain c r0 where s: "s = c # r0" and c: "c = CHR ''e'' \<or> c = CHR ''E''"
    and d: "digits1 (optChar ?sign r0) = Some r"
    by (cases s) (auto simp: exponentPart_def split: if_splits)
  have sg: "\<forall>c. ?sign c \<longrightarrow> numberChar c"
    by (simp add: numberChar_def)
  obtain p1 where p1: "r0 = p1 @ optChar ?sign r0" "\<forall>c\<in>set p1. numberChar c"
    using optChar_chars [OF sg, of r0] by blast
  obtain p2 where p2: "optChar ?sign r0 = p2 @ r" "\<forall>c\<in>set p2. numberChar c"
    using digits1_chars [OF d] by blast
  have nc: "numberChar c"
    using c by (auto simp: numberChar_def)
  have "s = (c # p1 @ p2) @ r"
    using s p1(1) p2(1) by simp
  moreover have "\<forall>x\<in>set (c # p1 @ p2). numberChar x"
    using nc p1(2) p2(2) by auto
  ultimately show ?thesis by blast
qed

lemma optGroup_chars:
  assumes "\<And>r. g s = Some r \<Longrightarrow> \<exists>p. s = p @ r \<and> (\<forall>c\<in>set p. numberChar c)"
  shows "\<exists>p. s = p @ optGroup g s \<and> (\<forall>c\<in>set p. numberChar c)"
proof (cases "g s")
  case None
  then have "s = [] @ optGroup g s" by (simp add: optGroup_def)
  then show ?thesis by (intro exI [of _ "[]"]) simp
next
  case (Some r)
  then show ?thesis using assms [OF Some] by (simp add: optGroup_def)
qed

lemma strictNumberShape_chars:
  assumes "strictNumberShape t"
  shows "\<forall>c\<in>set t. numberChar c"
proof -
  let ?r0 = "optChar (\<lambda>c. c = CHR ''-'') t"
  obtain r1 where i: "integerPart ?r0 = Some r1"
    and e: "optGroup exponentPart (optGroup fractionPart r1) = []"
    using assms by (auto simp: strictNumberShape_def split: option.splits)
  have sg: "\<forall>c. c = CHR ''-'' \<longrightarrow> numberChar c"
    by (simp add: numberChar_def)
  obtain p0 where p0: "t = p0 @ ?r0" "\<forall>c\<in>set p0. numberChar c"
    using optChar_chars [OF sg, of t] by blast
  obtain p1 where p1: "?r0 = p1 @ r1" "\<forall>c\<in>set p1. numberChar c"
    using integerPart_chars [OF i] by blast
  obtain p2 where p2: "r1 = p2 @ optGroup fractionPart r1" "\<forall>c\<in>set p2. numberChar c"
    using optGroup_chars [of fractionPart r1] fractionPart_chars by blast
  obtain p3 where p3: "optGroup fractionPart r1 = p3 @ optGroup exponentPart (optGroup fractionPart r1)"
    "\<forall>c\<in>set p3. numberChar c"
    using optGroup_chars [of exponentPart "optGroup fractionPart r1"] exponentPart_chars by blast
  have "t = p0 @ p1 @ p2 @ p3"
    using p0(1) p1(1) p2(1) p3(1) e by simp
  then have "set t = set p0 \<union> set p1 \<union> set p2 \<union> set p3"
    by (metis set_append sup_assoc)
  then show ?thesis
    using p0(2) p1(2) p2(2) p3(2) by blast
qed

lemma strictNumberShape_parse:
  assumes "strictNumberShape t" and "toNumber t = Some num"
  shows "parsePrimitive toNumber t = Inr (JNumber num)"
proof -
  have ch: "\<forall>c\<in>set t. numberChar c"
    by (rule strictNumberShape_chars [OF assms(1)])
  then have "\<forall>c\<in>set t. \<not> isWhiteSpace c"
    using numberChar_not_whitespace by blast
  then have tr: "trim t = t"
    by (rule trim_no_whitespace)
  have "CHR ''n'' \<notin> set t" "CHR ''t'' \<notin> set t" "CHR ''f'' \<notin> set t"
    using ch numberChar_plain by blast+
  then have lit: "t \<noteq> ''null''" "t \<noteq> ''true''" "t \<noteq> ''false''"
    by auto
  show ?thesis
    using tr lit assms by (simp add: parsePrimitive_def)
qed

text \<open>
  Claim C7, as amended. A token of the shape \<open>0\<close> followed by digits is returned as the
  same string. A token of the strict numeric shape is returned as a number when the
  runtime's \<open>Number\<close> of it is finite. The encoder quotes a string of the leading-zero
  shape, since \<open>isNumericLike\<close> accepts it, and the quoted text is parsed back to the
  string.
\<close>

theorem leading_zero_round_trip:
  "(leadingZeroShape t \<longrightarrow> parsePrimitive toNumber t = Inr (JString t))
   \<and> (strictNumberShape t \<and> toNumber t = Some num \<longrightarrow> parsePrimitive toNumber t = Inr (JNumber num))
   \<and> (leadingZeroShape t \<longrightarrow>
        isNumericLike t
        \<and> encodePrimitive rt (JString t) d = [DOUBLE_QUOTE] @ t @ [DOUBLE_QUOTE]
        \<and> parsePrimitive toNumber (encodePrimitive rt (JString t) d) = Inr (JString t))"
proof (intro conjI impI)
  assume "leadingZeroShape t"
  then show "parsePrimitive toNumber t = Inr (JString t)"
    by (rule leadingZero_parse)
next
  assume "strictNumberShape t \<and> toNumber t = Some num"
  then have "strictNumberShape t" and "toNumber t = Some num"
    by simp_all
  then show "parsePrimitive toNumber t = Inr (JNumber num)"
    by (rule strictNumberShape_parse)
next
  assume "leadingZeroShape t"
  then show "isNumericLike t"
    by (simp add: isNumericLike_def)
next
  assume "leadingZeroShape t"
  then show "encodePrimitive rt (JString t) d = [DOUBLE_QUOTE] @ t @ [DOUBLE_QUOTE]"
    by (simp add: leadingZero_quoted)
next
  assume z: "leadingZeroShape t"
  have "parsePrimitive toNumber ([DOUBLE_QUOTE] @ t @ [DOUBLE_QUOTE]) = Inr (JString t)"
    using leadingZero_digits [OF z] by (intro parse_quoted_digits) simp
  then show "parsePrimitive toNumber (encodePrimitive rt (JString t) d) = Inr (JString t)"
    by (simp add: leadingZero_quoted [OF z])
qed

lemmas decimal_defs =
  decimalNumber_def Let_def startsWith_def optChar_def isDigit_def parseInt_def digitValue_def

lemma beyond_largest_double: "\<not> ((10::rat) ^ 999 < 2 ^ 1024 - 2 ^ 970)"
proof -
  have "(2::rat) ^ 1024 - 2 ^ 970 \<le> 2 ^ 1024"
    by (simp del: power_numeral)
  also have "(2::rat) ^ 1024 \<le> 2 ^ (3 * 999)"
    by (rule power_increasing) simp_all
  also have "(2::rat) ^ (3 * 999) = (2 ^ 3) ^ 999"
    by (rule power_mult)
  also have "\<dots> \<le> 10 ^ 999"
    by (rule power_mono) simp_all
  finally show ?thesis
    by (simp only: not_less)
qed

lemma decimalNumber_overflow: "decimalNumber ''1e999'' = None"
proof -
  have "decimalNumber ''1e999''
          = (if (10::rat) ^ 999 < 2 ^ 1024 - 2 ^ 970 then Some (10 ^ 999) else None)"
    by (simp add: decimal_defs del: power_numeral)
  then show ?thesis
    using beyond_largest_double by (simp only: if_False)
qed

text \<open>Witness for C7: the tokens \<open>0123\<close> and \<open>-12.5e3\<close>.\<close>

theorem leading_zero_round_trip_witness:
  "parsePrimitive decimalNumber ''0123'' = Inr (JString ''0123'')
   \<and> parsePrimitive decimalNumber ''-12.5e3'' = Inr (JNumber (- 12500))
   \<and> isNumericLike ''0123''
   \<and> encodePrimitive intRuntime (JString ''0123'') Comma = [DOUBLE_QUOTE] @ ''0123'' @ [DOUBLE_QUOTE]
   \<and> parsePrimitive decimalNumber (encodePrimitive intRuntime (JString ''0123'') Comma) = Inr (JString ''0123'')"
proof -
  have z: "leadingZeroShape ''0123''"
    by code_simp
  have s: "strictNumberShape ''-12.5e3''"
    by code_simp
  have n: "decimalNumber ''-12.5e3'' = Some (- 12500)"
    by (simp add: decimal_defs)
  note a = leading_zero_round_trip [of "''0123''" decimalNumber 0 intRuntime Comma]
  note b = leading_zero_round_trip [of "''-12.5e3''" decimalNumber "- 12500" intRuntime Comma]
  have b': "parsePrimitive decimalNumber ''-12.5e3'' = Inr (JNumber (- 12500))"
    by (rule mp [OF conjunct1 [OF conjunct2 [OF b]] conjI [OF s n]])
  show ?thesis
    by (rule conjI [OF mp [OF conjunct1 [OF a] z] conjI [OF b' mp [OF conjunct2 [OF conjunct2 [OF a]] z]]])
qed

text \<open>
  Counterexample to C7 as stated: \<open>1e999\<close> has the strict numeric shape, its value is not
  a finite double, and \<open>parsePrimitive\<close> returns it as a string.
\<close>

theorem overflowing_number_counterexample:
  "strictNumberShape ''1e999'' \<and> parsePrimitive decimalNumber ''1e999'' = Inr (JString ''1e999'')"
proof -
  have s: "strictNumberShape ''1e999''"
    by code_simp
  have "parsePrimitive decimalNumber ''1e999'' = Inr (JString ''1e999'')"
    using s decimalNumber_overflow
    by (simp add: parsePrimitive_def trim_def isWhiteSpace_def startsWith_def)
  then show ?thesis
    using s by simp
qed

section \<open>Lines of the encoder\<close>

lemma normalize_sole_hole: "normalizeValue rt (HArray [HHole]) = Inr (JArray [Hole])"
  by simp

lemma encode_sole_hole:
  "encode rt (HArray [HHole]) options
     = Inr (formatHeader 1 None None
              (case Option.bind options delimiterOption of Some d \<Rightarrow> d | None \<Rightarrow> Comma)
              (case Option.bind options lengthMarkerOption of Some m \<Rightarrow> m | None \<Rightarrow> False)
            @ '' '')"
  unfolding encode_def normalize_sole_hole bindE_Inr
  by (simp add: encodeValue_def isArrayOfPrimitives_def every_def isHole_def encodeInlineArrayLine_def
        encodeAndJoinPrimitives_def newLineWriter_def writerToString_def push_def)

lemma endsWith_append: "endsWith (a @ b) b"
  by (simp add: endsWith_def)

text \<open>
  Claim C5 fails on an array with one hole, such as \<open>[,]\<close>: \<open>normalizeValue\<close> keeps the
  hole, \<open>isArrayOfPrimitives\<close> holds because \<open>every\<close> skips it, and \<open>encodeInlineArrayLine\<close>
  writes the header, a space, and the empty join. With default options the text is
  \<open>[1]: \<close>; with any options the text ends with a space, and so does its only line.
\<close>

theorem sole_hole_trailing_space:
  "encode rt (HArray [HHole]) None = Inr ''[1]: ''
   \<and> bindE (encode rt (HArray [HHole]) None)
        (\<lambda>text. Inr (list_all (\<lambda>l. \<not> endsWith l '' '') (splitLines text))) = Inr False
   \<and> bindE (encode rt (HArray [HHole]) options) (\<lambda>text. Inr (endsWith text '' '')) = Inr True"
proof -
  have h: "formatHeader 1 None None Comma False = ''[1]:''"
    by code_simp
  have a: "encode rt (HArray [HHole]) None = Inr ''[1]: ''"
    unfolding encode_sole_hole by (simp add: h del: One_nat_def)
  have b: "list_all (\<lambda>l. \<not> endsWith l '' '') (splitLines ''[1]: '') = False"
    by code_simp
  have c: "bindE (encode rt (HArray [HHole]) options) (\<lambda>text. Inr (endsWith text '' '')) = Inr True"
    unfolding encode_sole_hole bindE_Inr by (simp only: endsWith_append)
  show ?thesis
    unfolding a bindE_Inr b using c by simp
qed

end
